theory Spec2Isabelle
  imports Complex_Main
begin

section \<open>JavaScript numbers\<close>

text \<open>
  The program \<^verbatim>\<open>dmv_gui.js\<close> computes with JavaScript Numbers. A Number is modelled as
  a real, one of the two infinities, or \<open>NaN\<close>; the sign of zero is not represented. The
  operations \<open>js_add\<close>, \<open>js_mul\<close> and \<open>js_div\<close> give the exact result, without the
  rounding of IEEE doubles; the total of the taxes, which the export prints, is added with
  \<open>js_add_double\<close>, which rounds as the machine does. The relational operators and
  \<open>Math.max\<close> follow ECMAScript: every comparison with \<open>NaN\<close> is false.
\<close>

datatype jsnum = NaN | NInf | Fin real | PInf

text \<open>A property that may be absent: \<open>None\<close> is \<^verbatim>\<open>undefined\<close>.\<close>

type_synonym jsval = "jsnum option"

fun ToNumber :: "jsval \<Rightarrow> jsnum" where
  "ToNumber None = NaN"
| "ToNumber (Some x) = x"

fun js_lt :: "jsnum \<Rightarrow> jsnum \<Rightarrow> bool" where
  "js_lt NaN _ = False"
| "js_lt _ NaN = False"
| "js_lt (Fin a) (Fin b) = (a < b)"
| "js_lt NInf NInf = False"
| "js_lt NInf _ = True"
| "js_lt _ NInf = False"
| "js_lt PInf _ = False"
| "js_lt _ PInf = True"

fun js_le :: "jsnum \<Rightarrow> jsnum \<Rightarrow> bool" where
  "js_le NaN _ = False"
| "js_le _ NaN = False"
| "js_le a b = (\<not> js_lt b a)"

definition js_gt :: "jsnum \<Rightarrow> jsnum \<Rightarrow> bool" where
  "js_gt a b = js_lt b a"

definition js_ge :: "jsnum \<Rightarrow> jsnum \<Rightarrow> bool" where
  "js_ge a b = js_le b a"

fun js_neg :: "jsnum \<Rightarrow> jsnum" where
  "js_neg NaN = NaN"
| "js_neg NInf = PInf"
| "js_neg PInf = NInf"
| "js_neg (Fin a) = Fin (- a)"

fun js_add :: "jsnum \<Rightarrow> jsnum \<Rightarrow> jsnum" where
  "js_add NaN _ = NaN"
| "js_add _ NaN = NaN"
| "js_add (Fin a) (Fin b) = Fin (a + b)"
| "js_add PInf NInf = NaN"
| "js_add NInf PInf = NaN"
| "js_add PInf _ = PInf"
| "js_add NInf _ = NInf"
| "js_add _ PInf = PInf"
| "js_add _ NInf = NInf"

definition js_sub :: "jsnum \<Rightarrow> jsnum \<Rightarrow> jsnum" where
  "js_sub a b = js_add a (js_neg b)"

text \<open>
  The double nearest to a real. With \<open>pow2 k\<close> the power of two of exponent \<open>k\<close>, a
  double of magnitude from \<open>pow2 e\<close> up to \<open>pow2 (e + 1)\<close> is a whole multiple of
  \<open>pow2 (e - 52)\<close>, where \<open>e\<close> is at least \<open>-1022\<close>: below \<open>pow2 (-1022)\<close> the doubles
  are the multiples of \<open>pow2 (-1074)\<close>. A real is rounded to the nearest such multiple,
  to the one with the even factor when it lies half way between two, and to an infinity
  when the rounded magnitude reaches \<open>pow2 1024\<close>.

  \<open>exponent x\<close> is that \<open>e\<close> for a positive \<open>x\<close>: it is searched from \<open>0\<close>, upwards as far as
  \<open>1024\<close> for \<open>x\<close> from \<open>1\<close> on, and downwards as far as \<open>-1022\<close> for \<open>x\<close> below \<open>1\<close>.
\<close>

definition pow2 :: "int \<Rightarrow> real" where
  "pow2 k = (if 0 \<le> k then 2 ^ nat k else 1 / 2 ^ nat (- k))"

fun exponent_up :: "nat \<Rightarrow> real \<Rightarrow> int \<Rightarrow> int" where
  "exponent_up 0 x e = e"
| "exponent_up (Suc k) x e = (if pow2 (e + 1) \<le> x then exponent_up k x (e + 1) else e)"

fun exponent_down :: "nat \<Rightarrow> real \<Rightarrow> int \<Rightarrow> int" where
  "exponent_down 0 x e = e"
| "exponent_down (Suc k) x e = (if x < pow2 e then exponent_down k x (e - 1) else e)"

definition exponent :: "real \<Rightarrow> int" where
  "exponent x = (if 1 \<le> x then exponent_up 1024 x 0 else exponent_down 1022 x 0)"

definition round_half_even :: "real \<Rightarrow> int" where
  "round_half_even m =
     (let f = \<lfloor>m\<rfloor>; d = m - of_int f in
      if d < 1 / 2 then f else if 1 / 2 < d then f + 1 else if even f then f else f + 1)"

definition to_double :: "real \<Rightarrow> jsnum" where
  "to_double x =
     (if x = 0 then Fin 0
      else
        (let q = pow2 (exponent \<bar>x\<bar> - 52);
             r = of_int (round_half_even (x / q)) * q in
         if pow2 1024 \<le> \<bar>r\<bar> then (if x < 0 then NInf else PInf) else Fin r))"

text \<open>
  \<^verbatim>\<open>a + b\<close> on doubles: the exact sum, rounded to the nearest double.
\<close>

definition js_add_double :: "jsnum \<Rightarrow> jsnum \<Rightarrow> jsnum" where
  "js_add_double a b = (case js_add a b of Fin s \<Rightarrow> to_double s | s \<Rightarrow> s)"

text \<open>The sign of a Number; \<open>None\<close> for \<open>NaN\<close>.\<close>

fun js_sign :: "jsnum \<Rightarrow> int option" where
  "js_sign NaN = None"
| "js_sign NInf = Some (- 1)"
| "js_sign PInf = Some 1"
| "js_sign (Fin a) = Some (if a < 0 then - 1 else if a = 0 then 0 else 1)"

definition inf_of_sign :: "int \<Rightarrow> jsnum" where
  "inf_of_sign s = (if s < 0 then NInf else if s = 0 then NaN else PInf)"

fun js_mul :: "jsnum \<Rightarrow> jsnum \<Rightarrow> jsnum" where
  "js_mul (Fin a) (Fin b) = Fin (a * b)"
| "js_mul a b =
     (case (js_sign a, js_sign b) of
        (Some s, Some t) \<Rightarrow> inf_of_sign (s * t)
      | _ \<Rightarrow> NaN)"

text \<open>
  Division. The model has a single zero, taken as \<open>+0\<close>; every divisor in the program
  is a non-zero literal (\<open>1000\<close> and \<open>12\<close>).
\<close>

fun js_div :: "jsnum \<Rightarrow> jsnum \<Rightarrow> jsnum" where
  "js_div NaN _ = NaN"
| "js_div _ NaN = NaN"
| "js_div (Fin a) (Fin b) =
     (if b = 0 then inf_of_sign (if a < 0 then - 1 else if a = 0 then 0 else 1)
      else Fin (a / b))"
| "js_div (Fin a) _ = Fin 0"
| "js_div a (Fin b) =
     (case js_sign a of
        Some s \<Rightarrow> inf_of_sign (if b < 0 then - s else s)
      | None \<Rightarrow> NaN)"
| "js_div _ _ = NaN"

text \<open>\<^verbatim>\<open>Math.max(a, b)\<close>: \<open>NaN\<close> if either argument is.\<close>

fun Math_max :: "jsnum \<Rightarrow> jsnum \<Rightarrow> jsnum" where
  "Math_max NaN _ = NaN"
| "Math_max _ NaN = NaN"
| "Math_max a b = (if js_lt a b then b else a)"

text \<open>Truthiness of a Number (\<open>0\<close> and \<open>NaN\<close> are falsy) and of a possibly absent one.\<close>

fun truthy :: "jsnum \<Rightarrow> bool" where
  "truthy NaN = False"
| "truthy (Fin a) = (a \<noteq> 0)"
| "truthy _ = True"

text \<open>\<^verbatim>\<open>x || d\<close> for Numbers.\<close>

definition js_or :: "jsnum \<Rightarrow> jsnum \<Rightarrow> jsnum" where
  "js_or x d = (if truthy x then x else d)"

definition js_or_val :: "jsval \<Rightarrow> jsnum \<Rightarrow> jsnum" where
  "js_or_val x d = (case x of None \<Rightarrow> d | Some n \<Rightarrow> js_or n d)"

section \<open>Rate tables\<close>

text \<open>
  A row \<^verbatim>\<open>{od, do, sadzba}\<close> (or \<^verbatim>\<open>{od, do, koef}\<close>) is a triple: lower bound, upper
  bound, value.
\<close>

type_synonym pasmo = "jsnum \<times> jsnum \<times> jsnum"

definition SADZBY_M1 :: "pasmo list" where
  "SADZBY_M1 =
    [(Fin 0, Fin 150, Fin 50), (Fin 150, Fin 900, Fin 62),
     (Fin 900, Fin 1200, Fin 80), (Fin 1200, Fin 1500, Fin 115),
     (Fin 1500, Fin 2000, Fin 148), (Fin 2000, Fin 3000, Fin 180),
     (Fin 3000, PInf, Fin 218)]"

definition SADZBY_O :: "(string \<times> jsnum) list" where
  "SADZBY_O = [(''O1'', Fin 50), (''O2'', Fin 115), (''O3'', Fin 180), (''O4'', Fin 295)]"

definition SADZBY_N1 :: "pasmo list" where
  "SADZBY_N1 =
    [(Fin 0, Fin 2, Fin 115), (Fin 2, Fin 4, Fin 148),
     (Fin 4, Fin 6, Fin 180), (Fin 6, Fin 8, Fin 218),
     (Fin 8, Fin 10, Fin 253), (Fin 10, Fin 12, Fin 295)]"

definition UPRAVA_2024 :: "pasmo list" where
  "UPRAVA_2024 =
    [(Fin 0, Fin 36, Fin 0.75), (Fin 36, Fin 72, Fin 0.80),
     (Fin 72, Fin 108, Fin 0.85), (Fin 108, Fin 144, Fin 1.00),
     (Fin 144, Fin 156, Fin 1.10), (Fin 156, PInf, Fin 1.20)]"

definition UPRAVA_2025 :: "pasmo list" where
  "UPRAVA_2025 =
    [(Fin 0, Fin 36, Fin 1.00), (Fin 36, Fin 72, Fin 1.10),
     (Fin 72, Fin 108, Fin 1.20), (Fin 108, Fin 144, Fin 1.30),
     (Fin 144, Fin 180, Fin 1.40), (Fin 180, PInf, Fin 1.50)]"

section \<open>Rate and coefficient lookup\<close>

text \<open>
  The loop \<^verbatim>\<open>for (const s of T) { if (x > s.od && x <= s.do) return s.sadzba; }\<close>:
  the value of the first row that matches, \<open>None\<close> when the loop falls through.
\<close>

fun hladaj_sadzbu :: "jsnum \<Rightarrow> pasmo list \<Rightarrow> jsnum option" where
  "hladaj_sadzbu x [] = None"
| "hladaj_sadzbu x ((od, do', s) # rest) =
     (if js_gt x od \<and> js_le x do' then Some s else hladaj_sadzbu x rest)"

text \<open>The loop of \<^verbatim>\<open>getKoefVeku\<close>: \<^verbatim>\<open>if (vek >= u.od && vek < u.do) return u.koef;\<close>\<close>

fun hladaj_koef :: "jsnum \<Rightarrow> pasmo list \<Rightarrow> jsnum option" where
  "hladaj_koef x [] = None"
| "hladaj_koef x ((od, do', k) # rest) =
     (if js_ge x od \<and> js_lt x do' then Some k else hladaj_koef x rest)"

definition startsWith :: "string \<Rightarrow> string \<Rightarrow> bool" where
  "startsWith s p = (take (length p) s = p)"

text \<open>
  \<^verbatim>\<open>getZakladnaSadzba(kat, objem, hmotnost)\<close>. The category is a string; displacement
  and mass may be absent, and the comparisons coerce them with \<open>ToNumber\<close>.
  \<^verbatim>\<open>SADZBY_O[kat] || 50\<close> reads an own property of the table: no inherited property
  of an object has a name that starts with \<open>O\<close>.
\<close>

definition getZakladnaSadzba :: "string \<Rightarrow> jsval \<Rightarrow> jsval \<Rightarrow> jsnum" where
  "getZakladnaSadzba kat objem hmotnost =
     (if kat = ''M1'' \<or> kat = ''L'' then
        (case hladaj_sadzbu (ToNumber objem) SADZBY_M1 of
           Some s \<Rightarrow> s
         | None \<Rightarrow> Fin 218)
      else if startsWith kat ''O'' then js_or_val (map_of SADZBY_O kat) (Fin 50)
      else
        (let hmotnostT = js_div (ToNumber hmotnost) (Fin 1000) in
         case hladaj_sadzbu hmotnostT SADZBY_N1 of
           Some s \<Rightarrow> s
         | None \<Rightarrow> Fin 115))"

text \<open>
  \<^verbatim>\<open>getKoefVeku(vek)\<close>. The tax year \<open>rok\<close> is \<^verbatim>\<open>parseInt\<close> of the year field of the
  page: an integer or \<open>NaN\<close>. Both tables are non-empty, so the last row exists.
\<close>

definition getKoefVeku :: "jsnum \<Rightarrow> jsnum \<Rightarrow> jsnum" where
  "getKoefVeku rok vek =
     (let upravy = (if js_ge rok (Fin 2025) then UPRAVA_2025 else UPRAVA_2024) in
      case hladaj_koef vek upravy of
        Some k \<Rightarrow> k
      | None \<Rightarrow> snd (snd (last upravy)))"

section \<open>Strings, string-to-number conversion\<close>

text \<open>
  A string is a list of code units; \<^typ>\<open>char\<close> has 256 values, so the model covers the
  strings over code units below 256. \<^verbatim>\<open>s.split('.')\<close> cuts at every separator and
  keeps empty pieces.
\<close>

fun split :: "char \<Rightarrow> string \<Rightarrow> string list" where
  "split c [] = [[]]"
| "split c (x # xs) =
     (if x = c then [] # split c xs
      else (case split c xs of
              p # ps \<Rightarrow> (x # p) # ps
            | [] \<Rightarrow> [[x]]))"

text \<open>
  The arguments of \<^verbatim>\<open>new Date(parts[2], parts[1] - 1, parts[0])\<close> are strings, coerced
  by ECMAScript's StringToNumber: surrounding white space is dropped, the empty string is
  \<open>0\<close>, then an optionally signed decimal literal (\<open>Infinity\<close>, or digits with an
  optional fraction and exponent) or an unsigned binary, octal or hexadecimal literal;
  anything else is \<open>NaN\<close>.
\<close>

definition is_white :: "char \<Rightarrow> bool" where
  "is_white c = (c \<in> set [CHR 0x09, CHR 0x0A, CHR 0x0B, CHR 0x0C, CHR 0x0D, CHR 0x20, CHR 0xA0])"

definition trim :: "string \<Rightarrow> string" where
  "trim s = rev (dropWhile is_white (rev (dropWhile is_white s)))"

definition digit_val :: "char \<Rightarrow> nat option" where
  "digit_val c =
     (let n = (of_char c :: nat) in
      if 48 \<le> n \<and> n \<le> 57 then Some (n - 48)
      else if 97 \<le> n \<and> n \<le> 102 then Some (n - 87)
      else if 65 \<le> n \<and> n \<le> 70 then Some (n - 55)
      else None)"

fun digits_val :: "nat \<Rightarrow> nat \<Rightarrow> string \<Rightarrow> nat option" where
  "digits_val base acc [] = Some acc"
| "digits_val base acc (c # cs) =
     (case digit_val c of
        None \<Rightarrow> None
      | Some d \<Rightarrow> if d < base then digits_val base (acc * base + d) cs else None)"

text \<open>A non-empty run of digits in the given base.\<close>

definition parse_digits :: "nat \<Rightarrow> string \<Rightarrow> nat option" where
  "parse_digits base s = (if s = [] then None else digits_val base 0 s)"

text \<open>A possibly empty run of decimal digits.\<close>

definition parse_digits0 :: "string \<Rightarrow> nat option" where
  "parse_digits0 s = digits_val 10 0 s"

text \<open>The exponent part after \<open>e\<close> or \<open>E\<close>: an optional sign and decimal digits.\<close>

definition parse_exponent :: "string \<Rightarrow> int option" where
  "parse_exponent s =
     (case s of
        [] \<Rightarrow> None
      | c # cs \<Rightarrow>
          if c = CHR ''-'' then map_option (\<lambda>n. - int n) (parse_digits 10 cs)
          else if c = CHR ''+'' then map_option int (parse_digits 10 cs)
          else map_option int (parse_digits 10 s))"

text \<open>Digits with an optional fraction: \<open>12\<close>, \<open>12.\<close>, \<open>12.5\<close>, \<open>.5\<close>.\<close>

definition parse_mantissa :: "string \<Rightarrow> real option" where
  "parse_mantissa s =
     (let ip = takeWhile (\<lambda>c. c \<noteq> CHR ''.'') s;
          rest = dropWhile (\<lambda>c. c \<noteq> CHR ''.'') s
      in case rest of
           [] \<Rightarrow> map_option real (parse_digits 10 ip)
         | _ # fp \<Rightarrow>
             if ip = [] \<and> fp = [] then None
             else (case (parse_digits0 ip, parse_digits0 fp) of
                     (Some i, Some f) \<Rightarrow> Some (real i + real f / 10 ^ length fp)
                   | _ \<Rightarrow> None))"

definition is_e :: "char \<Rightarrow> bool" where
  "is_e c = (c = CHR ''e'' \<or> c = CHR ''E'')"

definition parse_unsigned_decimal :: "string \<Rightarrow> jsnum" where
  "parse_unsigned_decimal s =
     (if s = ''Infinity'' then PInf
      else
        (let m = takeWhile (\<lambda>c. \<not> is_e c) s;
             rest = dropWhile (\<lambda>c. \<not> is_e c) s
         in case parse_mantissa m of
              None \<Rightarrow> NaN
            | Some v \<Rightarrow>
                (case rest of
                   [] \<Rightarrow> Fin v
                 | _ # ex \<Rightarrow>
                     (case parse_exponent ex of
                        None \<Rightarrow> NaN
                      | Some e \<Rightarrow> Fin (if e < 0 then v / 10 ^ nat (- e) else v * 10 ^ nat e)))))"

definition radix_of :: "char \<Rightarrow> nat option" where
  "radix_of c =
     (if c = CHR ''x'' \<or> c = CHR ''X'' then Some 16
      else if c = CHR ''o'' \<or> c = CHR ''O'' then Some 8
      else if c = CHR ''b'' \<or> c = CHR ''B'' then Some 2
      else None)"

definition StringToNumber :: "string \<Rightarrow> jsnum" where
  "StringToNumber str =
     (let s = trim str in
      case s of
        [] \<Rightarrow> Fin 0
      | [c] \<Rightarrow> parse_unsigned_decimal s
      | c # d # cs \<Rightarrow>
          (case (if c = CHR ''0'' then radix_of d else None) of
             Some base \<Rightarrow>
               (case parse_digits base cs of
                  None \<Rightarrow> NaN
                | Some n \<Rightarrow> Fin (real n))
           | None \<Rightarrow>
               if c = CHR ''-'' then js_neg (parse_unsigned_decimal (d # cs))
               else if c = CHR ''+'' then parse_unsigned_decimal (d # cs)
               else parse_unsigned_decimal s))"

section \<open>Dates\<close>

text \<open>
  \<^verbatim>\<open>new Date(year, month, date)\<close> is a local midnight, and \<^verbatim>\<open>getFullYear\<close> and
  \<^verbatim>\<open>getMonth\<close> read it back in local time, so the time zone cancels out and a Date
  is modelled by its day number (days since 1 January 1970), \<open>None\<close> for an invalid Date.
  The conversion between a day number and the proleptic Gregorian calendar works on years
  that start in March, in periods of 400 years (146097 days).
\<close>

definition trunc :: "real \<Rightarrow> int" where
  "trunc x = (if x < 0 then \<lceil>x\<rceil> else \<lfloor>x\<rfloor>)"

text \<open>Day number of the first day of month \<open>m\<close> (\<open>0\<close> is January) of year \<open>y\<close>.\<close>

definition day_of_month_start :: "int \<Rightarrow> int \<Rightarrow> int" where
  "day_of_month_start y m =
     (let y' = (if m \<le> 1 then y - 1 else y);
          era = y' div 400;
          yoe = y' mod 400;
          mp = (m + 10) mod 12;
          doy = (153 * mp + 2) div 5;
          doe = yoe * 365 + yoe div 4 - yoe div 100 + doy
      in era * 146097 + doe - 719468)"

text \<open>Year and month (\<open>0\<close> is January) of a day number.\<close>

definition year_month_of_day :: "int \<Rightarrow> int \<times> int" where
  "year_month_of_day z =
     (let z' = z + 719468;
          era = z' div 146097;
          doe = z' mod 146097;
          yoe = (doe - doe div 1460 + doe div 36524 - doe div 146096) div 365;
          doy = doe - (365 * yoe + yoe div 4 - yoe div 100);
          mp = (5 * doy + 2) div 153;
          m = (if mp < 10 then mp + 2 else mp - 10)
      in (yoe + era * 400 + (if m \<le> 1 then 1 else 0), m))"

text \<open>
  The Date constructor: a year from 0 to 99 means 1900 + year; month and day overflow into
  the neighbouring months and years; a non-finite argument, or a day beyond
  \<open>10\<^sup>8\<close> days from the epoch, gives an invalid Date.
\<close>

definition new_Date :: "jsnum \<Rightarrow> jsnum \<Rightarrow> jsnum \<Rightarrow> int option" where
  "new_Date year month date =
     (case (year, month, date) of
        (Fin y, Fin m, Fin dt) \<Rightarrow>
          (let yi = trunc y;
               yr = (if 0 \<le> yi \<and> yi \<le> 99 then 1900 + yi else yi);
               mi = trunc m;
               day = day_of_month_start (yr + mi div 12) (mi mod 12) + trunc dt - 1
           in if \<bar>day\<bar> \<le> 100000000 then Some day else None)
      | _ \<Rightarrow> None)"

definition getFullYear :: "int option \<Rightarrow> jsnum" where
  "getFullYear d = (case d of None \<Rightarrow> NaN | Some z \<Rightarrow> Fin (of_int (fst (year_month_of_day z))))"

definition getMonth :: "int option \<Rightarrow> jsnum" where
  "getMonth d = (case d of None \<Rightarrow> NaN | Some z \<Rightarrow> Fin (of_int (snd (year_month_of_day z))))"

section \<open>Age of a vehicle\<close>

text \<open>
  \<^verbatim>\<open>vypocitajVek(datumStr)\<close>, with the tax year \<open>rok\<close> read from the page as in
  \<^verbatim>\<open>getKoefVeku\<close>. The date may be absent; \<^verbatim>\<open>!datumStr\<close> holds for an absent and for
  an empty string.
\<close>

definition vypocitajVek :: "jsnum \<Rightarrow> string option \<Rightarrow> jsnum" where
  "vypocitajVek rok datumStr =
     (case datumStr of
        None \<Rightarrow> Fin 0
      | Some str \<Rightarrow>
          if str = [] then Fin 0
          else
            (case split CHR ''.'' str of
               [p0, p1, p2] \<Rightarrow>
                 (let datumEv = new_Date (StringToNumber p2)
                                  (js_sub (StringToNumber p1) (Fin 1)) (StringToNumber p0);
                      koniec = new_Date rok (Fin 11) (Fin 31)
                  in Math_max (Fin 0)
                       (js_add (js_mul (js_sub (getFullYear koniec) (getFullYear datumEv)) (Fin 12))
                               (js_sub (getMonth koniec) (getMonth datumEv))))
             | _ \<Rightarrow> Fin 0))"

section \<open>Vehicles and their recomputation\<close>

text \<open>
  A vehicle of the global list \<^verbatim>\<open>vozidla\<close>. Records come from the form
  (\<^verbatim>\<open>ulozitVozidlo\<close>) or from the server's reply to an upload, so a numeric field may be
  absent, as are the derived fields until the first recomputation. The category is a
  string; a flag is its truthiness.
\<close>

record vozidlo =
  evc :: string
  kategoria :: string
  datum :: "string option"
  datumVzniku :: "string option"
  objem :: jsval
  hmotnost :: jsval
  mesiace :: jsval
  hybrid :: bool
  plyn :: bool
  kombi :: bool
  zakladnaSadzba :: jsval
  sadzba :: jsval
  dan :: jsval
  vek :: jsval

text \<open>The body of the \<^verbatim>\<open>forEach\<close> callback of \<^verbatim>\<open>prepocitatVsetky\<close>, on one vehicle.\<close>

definition prepocitaj :: "jsnum \<Rightarrow> vozidlo \<Rightarrow> vozidlo" where
  "prepocitaj rok v =
     (let zakladna = getZakladnaSadzba (kategoria v) (objem v) (hmotnost v);
          vek' = vypocitajVek rok (datum v);
          s0 = (if js_gt vek' (Fin 0) \<and> \<not> startsWith (kategoria v) ''O''
                then js_mul zakladna (getKoefVeku rok vek') else zakladna);
          s1 = (if hybrid v \<or> plyn v then js_mul s0 (Fin 0.5) else s0);
          s2 = (if kombi v then js_mul s1 (Fin 0.5) else s1)
      in v\<lparr>zakladnaSadzba := Some zakladna,
            sadzba := Some s2,
            vek := Some vek',
            dan := Some (js_mul (js_div s2 (Fin 12)) (ToNumber (mesiace v)))\<rparr>)"

text \<open>
  \<^verbatim>\<open>prepocitatVsetky()\<close> updates every vehicle of the list in place. The objects of the
  list are distinct (they are parsed from the server's reply or created one by one by the
  dialog), so the update is a map over the list; the redrawn table and the log line are
  not part of the model.
\<close>

definition prepocitatVsetky :: "jsnum \<Rightarrow> vozidlo list \<Rightarrow> vozidlo list" where
  "prepocitatVsetky rok vozidla = map (prepocitaj rok) vozidla"

text \<open>
  The fields of the vehicle dialog that \<^verbatim>\<open>prepocitat()\<close> reads. \<open>vObjem\<close> and
  \<open>vHmotnost\<close> hold \<^verbatim>\<open>parseFloat\<close> of the field's text and \<open>vMesiace\<close> its
  \<^verbatim>\<open>parseInt\<close>, \<open>NaN\<close> when the text is not a number.
\<close>

record formular =
  vKategoria :: string
  vObjem :: jsnum
  vHmotnost :: jsnum
  vDatum :: string
  vMesiace :: jsnum
  vHybrid :: bool
  vPlyn :: bool
  vKombi :: bool

text \<open>
  \<^verbatim>\<open>prepocitat()\<close> returns \<^verbatim>\<open>{zakladna, sadzba, dan, vek}\<close>, here a tuple in this order;
  the texts it writes into the page are not part of the model.
\<close>

definition prepocitat :: "jsnum \<Rightarrow> formular \<Rightarrow> jsnum \<times> jsnum \<times> jsnum \<times> jsnum" where
  "prepocitat rok f =
     (let kat = vKategoria f;
          objem' = js_or (vObjem f) (Fin 0);
          hmotnost' = js_or (vHmotnost f) (Fin 0);
          mesiace' = js_or (vMesiace f) (Fin 12);
          zakladna = getZakladnaSadzba kat (Some objem') (Some hmotnost');
          vek' = vypocitajVek rok (Some (vDatum f));
          s0 = (if js_gt vek' (Fin 0) \<and> \<not> startsWith kat ''O''
                then js_mul zakladna (getKoefVeku rok vek') else zakladna);
          s1 = (if vHybrid f \<or> vPlyn f then js_mul s0 (Fin 0.5) else s0);
          s2 = (if vKombi f then js_mul s1 (Fin 0.5) else s1)
      in (zakladna, s2, js_mul (js_div s2 (Fin 12)) mesiace', vek'))"

section \<open>Printing numbers\<close>

definition cifra :: "nat \<Rightarrow> char" where
  "cifra d = ''0123456789'' ! (d mod 10)"

text \<open>The decimal digits of a natural number, as \<^verbatim>\<open>String(n)\<close> prints it.\<close>

fun cislice :: "nat \<Rightarrow> string" where
  "cislice n = (if n < 10 then [cifra n] else cislice (n div 10) @ [cifra (n mod 10)])"

declare cislice.simps [simp del]

text \<open>
  \<^verbatim>\<open>x.toFixed(2)\<close>: the nearest multiple of \<open>1/100\<close>, the larger one on a tie, printed
  with two decimals after the sign. From \<open>10\<^sup>2\<^sup>1\<close> on JavaScript prints the Number in
  exponential notation, from the digits of the double: that text is outside the model,
  and the result is \<open>None\<close>.
\<close>

definition toFixed2 :: "jsnum \<Rightarrow> string option" where
  "toFixed2 x =
     (case x of
        NaN \<Rightarrow> Some ''NaN''
      | PInf \<Rightarrow> Some ''Infinity''
      | NInf \<Rightarrow> Some ''-Infinity''
      | Fin r \<Rightarrow>
          if \<bar>r\<bar> \<ge> 10 ^ 21 then None
          else
            (let n = nat \<lfloor>\<bar>r\<bar> * 100 + 1 / 2\<rfloor> in
             Some ((if r < 0 then ''-'' else []) @ cislice (n div 100) @ ''.'' @
                   [cifra (n div 10), cifra n])))"

section \<open>Export of the declaration\<close>

text \<open>The company fields of the page, read as they are.\<close>

record spolocnost =
  dic :: string
  nazov :: string
  ulica :: string
  cislo :: string
  psc :: string
  obec :: string

text \<open>
  What a call of \<^verbatim>\<open>exportXML()\<close> does: it shows one of its two messages with
  \<^verbatim>\<open>alert\<close> and returns; or it posts company, vehicles and year to the server's
  \<^verbatim>\<open>/api/export-xml\<close>, which builds the document (the server is not part of these
  sources; its reply is modelled further down, from the specification); or it builds the
  document itself and offers it as a file, given by its name and its content (\<open>None\<close> when
  the total prints in exponential notation).
\<close>

datatype hlaska = Zadajte_DIC | Pridajte_vozidlo

datatype vysledok =
    Alert hlaska
  | Server spolocnost "vozidlo list" string
  | Subor string "string option"

definition nl :: string where
  "nl = [CHR 0x0A]"

definition dq :: string where
  "dq = [CHR 0x22]"

text \<open>
  \<^verbatim>\<open>vozidla.reduce((sum, v) => sum + (v.dan || 0), 0)\<close>: the taxes are added from left
  to right, and every addition rounds to a double.
\<close>

definition celkovaDan :: "vozidlo list \<Rightarrow> jsnum" where
  "celkovaDan vozidla =
     foldl (\<lambda>sum v. js_add_double sum (js_or_val (dan v) (Fin 0))) (Fin 0) vozidla"

text \<open>
  The template literal of the client-side export, line by line; \<open>rok\<close> is the text of
  the year field, \<open>pocet\<close> prints \<^verbatim>\<open>vozidla.length\<close> and \<open>suma\<close> prints
  \<^verbatim>\<open>celkovaDan.toFixed(2)\<close>.
\<close>

definition xml_hlavicka :: "spolocnost \<Rightarrow> string \<Rightarrow> string" where
  "xml_hlavicka sp rok =
     ''<?xml version='' @ dq @ ''1.0'' @ dq @ '' encoding='' @ dq @ ''UTF-8'' @ dq @ ''?>'' @ nl @
     ''<dokument>'' @ nl @
     ''<hlavicka>'' @ nl @
     ''<fo>0</fo><po>1</po><zahranicna>0</zahranicna>'' @ nl @
     ''<dic>'' @ dic sp @ ''</dic>'' @ nl @
     ''<typDP><rdp>1</rdp><odp>0</odp><ddp>0</ddp></typDP>'' @ nl @
     ''<zdanovacieObdobie><od>1.1.'' @ rok @ ''</od><do>31.12.'' @ rok @
       ''</do></zdanovacieObdobie>'' @ nl @
     ''<poObchodneMeno><riadok>'' @ nazov sp @ ''</riadok></poObchodneMeno>'' @ nl @
     ''<sidlo>'' @ nl @
     ''<ulica>'' @ ulica sp @ ''</ulica>'' @ nl @
     ''<cislo>'' @ cislo sp @ ''</cislo>'' @ nl @
     ''<psc>'' @ psc sp @ ''</psc>'' @ nl @
     ''<obec>'' @ obec sp @ ''</obec>'' @ nl @
     ''<stat>Slovensk'' @ [CHR 0xE1] @ '' republika</stat>'' @ nl @
     ''</sidlo>'' @ nl @
     ''</hlavicka>'' @ nl"

definition xml_telo :: "string \<Rightarrow> string \<Rightarrow> string" where
  "xml_telo pocet suma =
     ''<telo>'' @ nl @
     ''<r35>'' @ pocet @ ''</r35>'' @ nl @
     ''<r36>'' @ suma @ ''</r36>'' @ nl @
     ''<r38>'' @ suma @ ''</r38>'' @ nl @
     ''<r40>'' @ suma @ ''</r40>'' @ nl @
     ''</telo>'' @ nl"

definition xml_dokument :: "spolocnost \<Rightarrow> string \<Rightarrow> string \<Rightarrow> string \<Rightarrow> string" where
  "xml_dokument sp rok pocet suma = xml_hlavicka sp rok @ xml_telo pocet suma @ ''</dokument>''"

text \<open>
  \<^verbatim>\<open>exportXML()\<close>. \<open>USE_API\<close> is the constant of the same name (false when the page is
  opened from a file), \<open>sp\<close> the company fields, \<open>rok\<close> the text of the year field.
\<close>

definition exportXML :: "bool \<Rightarrow> spolocnost \<Rightarrow> string \<Rightarrow> vozidlo list \<Rightarrow> vysledok" where
  "exportXML USE_API sp rok vozidla =
     (if dic sp = [] then Alert Zadajte_DIC
      else if length vozidla = 0 then Alert Pridajte_vozidlo
      else if USE_API then Server sp vozidla rok
      else Subor (''dmv_'' @ dic sp @ ''_'' @ rok @ ''.xml'')
             (map_option (xml_dokument sp rok (cislice (length vozidla)))
                (toFixed2 (celkovaDan vozidla))))"

section \<open>Notions used in the statements\<close>

text \<open>A Number that is neither \<open>NaN\<close> nor infinite.\<close>

definition js_finite :: "jsnum \<Rightarrow> bool" where
  "js_finite x = (case x of Fin _ \<Rightarrow> True | _ \<Rightarrow> False)"

text \<open>
  The specification asks that free text be escaped for the reserved characters of the
  output format before it is inserted. The source has no such function; this is the
  escaping the specification means, for the five characters XML reserves, and the company
  with its three free-text fields escaped.
\<close>

definition spec_reserved :: "char list" where
  "spec_reserved = [CHR ''&'', CHR ''<'', CHR ''>'', CHR 0x22, CHR 0x27]"

definition spec_escape_char :: "char \<Rightarrow> string" where
  "spec_escape_char c =
     (if c = CHR ''&'' then ''&amp;''
      else if c = CHR ''<'' then ''&lt;''
      else if c = CHR ''>'' then ''&gt;''
      else if c = CHR 0x22 then ''&quot;''
      else if c = CHR 0x27 then ''&apos;''
      else [c])"

definition spec_escape :: "string \<Rightarrow> string" where
  "spec_escape s = concat (map spec_escape_char s)"

definition spec_escaped :: "spolocnost \<Rightarrow> spolocnost" where
  "spec_escaped sp =
     sp\<lparr>nazov := spec_escape (nazov sp), ulica := spec_escape (ulica sp),
        obec := spec_escape (obec sp)\<rparr>"

text \<open>
  The number of days of month \<open>m\<close> (\<open>0\<close> is January) in a year that is not a leap year;
  \<open>0\<close> when \<open>m\<close> is not a month.
\<close>

definition days_in_month :: "int \<Rightarrow> int" where
  "days_in_month m =
     (if 0 \<le> m \<and> m \<le> 11 then [31, 28, 31, 30, 31, 30, 31, 31, 30, 31, 30, 31] ! nat m else 0)"

section \<open>The export of the server\<close>


section \<open>Example values\<close>

text \<open>
  A passenger car of 1400 cubic centimetres first registered on 15 March 2005 and held
  for the whole year, before any recomputation; a company whose name has a reserved
  character; the dialog filled in for the same car.
\<close>

definition priklad_vozidlo :: vozidlo where
  "priklad_vozidlo =
     \<lparr>evc = ''BA123AB'', kategoria = ''M1'', datum = Some ''15.3.2005'',
      datumVzniku = Some ''1.1.2024'', objem = Some (Fin 1400), hmotnost = None,
      mesiace = Some (Fin 12), hybrid = False, plyn = False, kombi = False,
      zakladnaSadzba = None, sadzba = None, dan = None, vek = None\<rparr>"

definition priklad_spolocnost :: spolocnost where
  "priklad_spolocnost =
     \<lparr>dic = ''2020123456'', nazov = ''A&B'', ulica = ''Hlavna'', cislo = ''1'',
      psc = ''81101'', obec = ''Bratislava''\<rparr>"

definition priklad_formular :: formular where
  "priklad_formular =
     \<lparr>vKategoria = ''M1'', vObjem = Fin 1400, vHmotnost = NaN, vDatum = ''15.3.2005'',
      vMesiace = Fin 12, vHybrid = False, vPlyn = False, vKombi = False\<rparr>"

section \<open>Facts about the arithmetic and the tables\<close>

lemma js_gt_Fin [simp]: "js_gt (Fin a) (Fin b) = (b < a)"
  by (simp add: js_gt_def)

lemma js_ge_Fin [simp]: "js_ge (Fin a) (Fin b) = (b \<le> a)"
  by (auto simp: js_ge_def)

lemma js_le_Fin [simp]: "js_le (Fin a) (Fin b) = (a \<le> b)"
  by auto

lemma js_finiteE: "js_finite x \<Longrightarrow> \<exists>r. x = Fin r"
  by (cases x) (simp_all add: js_finite_def)

lemma js_mul_half_half: "js_mul (js_mul x (Fin 0.5)) (Fin 0.5) = js_mul x (Fin 0.25)"
  by (cases x) (simp_all add: inf_of_sign_def)

lemma js_mul_half_half_simp: "js_mul (js_mul x (Fin (1 / 2))) (Fin (1 / 2)) = js_mul x (Fin (1 / 4))"
  using js_mul_half_half [of x] by simp

text \<open>
  The rounding to a double. The search of \<open>exponent\<close> finds the power of two below a
  positive real all over the range of the doubles, and \<open>-1022\<close> below that range; the
  double that \<open>to_double\<close> gives is off by at most half a unit in the last place, which
  is a relative error of at most \<open>pow2 (-53)\<close> in the normal range.
\<close>

lemma pow2_pos: "0 < pow2 k"
  by (simp add: pow2_def)

lemma pow2_Suc: "pow2 (k + 1) = 2 * pow2 k"
proof -
  consider "0 \<le> k" | "k = - 1" | "k < - 1" by linarith
  then show ?thesis
  proof cases
    case 1
    then have "nat (k + 1) = Suc (nat k)" by simp
    with 1 show ?thesis by (simp add: pow2_def)
  next
    case 2
    then show ?thesis by (simp add: pow2_def)
  next
    case 3
    then have "nat (- k) = Suc (nat (- (k + 1)))" by simp
    with 3 show ?thesis by (simp add: pow2_def)
  qed
qed

lemma pow2_mono: "a \<le> b \<Longrightarrow> pow2 a \<le> pow2 b"
proof -
  have "pow2 a \<le> pow2 (a + int n)" for n
  proof (induction n)
    case 0
    show ?case by simp
  next
    case (Suc n)
    have "a + int (Suc n) = a + int n + 1"
      by simp
    then have "pow2 (a + int (Suc n)) = 2 * pow2 (a + int n)"
      by (simp only: pow2_Suc)
    with Suc pow2_pos [of "a + int n"] show ?case by linarith
  qed
  from this [of "nat (b - a)"] show "a \<le> b \<Longrightarrow> pow2 a \<le> pow2 b"
    by simp
qed

lemma exponent_up_spec:
  assumes "pow2 e \<le> x"
  shows "e \<le> exponent_up k x e \<and> exponent_up k x e \<le> e + int k \<and>
         pow2 (exponent_up k x e) \<le> x \<and>
         (x < pow2 (exponent_up k x e + 1) \<or> exponent_up k x e = e + int k)"
  using assms
proof (induction k arbitrary: e)
  case 0
  then show ?case by simp
next
  case (Suc k)
  show ?case
  proof (cases "pow2 (e + 1) \<le> x")
    case True
    from Suc.IH [OF True] True show ?thesis by (simp add: add.assoc)
  next
    case False
    with Suc.prems show ?thesis by simp
  qed
qed

lemma exponent_down_spec:
  assumes "x < pow2 (e + 1)"
  shows "exponent_down k x e \<le> e \<and> e - int k \<le> exponent_down k x e \<and>
         x < pow2 (exponent_down k x e + 1) \<and>
         (pow2 (exponent_down k x e) \<le> x \<or> exponent_down k x e = e - int k)"
  using assms
proof (induction k arbitrary: e)
  case 0
  then show ?case by simp
next
  case (Suc k)
  show ?case
  proof (cases "x < pow2 e")
    case True
    then have "x < pow2 (e - 1 + 1)" by simp
    from Suc.IH [OF this] True show ?thesis by (auto simp: diff_diff_eq)
  next
    case False
    with Suc.prems show ?thesis by simp
  qed
qed

lemma exponent_spec:
  assumes "pow2 (- 1022) \<le> x" and "x < pow2 1024"
  shows "pow2 (exponent x) \<le> x \<and> x < pow2 (exponent x + 1) \<and>
         - 1022 \<le> exponent x \<and> exponent x \<le> 1023"
proof (cases "1 \<le> x")
  case True
  then have "pow2 0 \<le> x" by (simp add: pow2_def)
  from exponent_up_spec [OF this, of 1024] True
  have r: "0 \<le> exponent x" "exponent x \<le> 1024" "pow2 (exponent x) \<le> x"
      "x < pow2 (exponent x + 1) \<or> exponent x = 1024"
    by (simp_all add: exponent_def)
  have "exponent x \<noteq> 1024"
    using r(3) assms(2) by auto
  with r show ?thesis
    by simp
next
  case False
  then have "x < pow2 (0 + 1)" by (simp add: pow2_def)
  from exponent_down_spec [OF this, of 1022] False assms(1) 
  have "pow2 (exponent x) \<le> x" "x < pow2 (exponent x + 1)" "- 1022 \<le> exponent x" "exponent x \<le> 0"
    by (auto simp: exponent_def)
  then show ?thesis by simp
qed

lemma exponent_subnormal:
  assumes "x < pow2 (- 1022)"
  shows "exponent x = - 1022"
proof -
  have p: "pow2 (- 1022) \<le> 1"
    using pow2_mono [of "- 1022" 0] by (simp add: pow2_def)
  with assms have x1: "\<not> 1 \<le> x" by linarith
  then have "x < pow2 (0 + 1)" by (simp add: pow2_def)
  from exponent_down_spec [OF this, of 1022]
  have r: "- 1022 \<le> exponent x" "pow2 (exponent x) \<le> x \<or> exponent x = - 1022"
    using x1 by (auto simp: exponent_def)
  show ?thesis
  proof (rule ccontr)
    assume n: "exponent x \<noteq> - 1022"
    with r have "pow2 (exponent x) \<le> x" by simp
    moreover have "pow2 (- 1022) \<le> pow2 (exponent x)" using r(1) by (rule pow2_mono)
    ultimately show False using assms by linarith
  qed
qed

lemma round_half_even_error: "\<bar>of_int (round_half_even m) - m\<bar> \<le> 1 / 2"
proof -
  have "of_int \<lfloor>m\<rfloor> \<le> m" "m < of_int \<lfloor>m\<rfloor> + 1" by linarith+
  then show ?thesis
    by (auto simp: round_half_even_def Let_def)
qed

lemma to_double_error:
  assumes "to_double x = Fin r"
  shows "\<bar>r - x\<bar> \<le> pow2 (exponent \<bar>x\<bar> - 52) / 2"
proof (cases "x = 0")
  case True
  with assms pow2_pos [of "exponent \<bar>x\<bar> - 52"] show ?thesis
    by (simp add: to_double_def)
next
  case False
  define q where "q = pow2 (exponent \<bar>x\<bar> - 52)"
  have q: "0 < q" by (simp add: q_def pow2_pos)
  from assms False have r: "r = of_int (round_half_even (x / q)) * q"
    by (simp add: to_double_def Let_def q_def split: if_splits)
  have "r - x = (of_int (round_half_even (x / q)) - x / q) * q"
    using q by (simp add: r algebra_simps)
  then have "\<bar>r - x\<bar> = \<bar>of_int (round_half_even (x / q)) - x / q\<bar> * q"
    using q by (simp add: abs_mult)
  also have "\<dots> \<le> 1 / 2 * q"
    using round_half_even_error [of "x / q"] q by (intro mult_right_mono) simp_all
  finally show ?thesis by (simp add: q_def)
qed


lemma pow2_powi: "pow2 k = 2 powi k"
  by (simp add: pow2_def power_int_def field_simps)

lemma pow2_add: "pow2 (a + b) = pow2 a * pow2 b"
  by (simp add: pow2_powi power_int_add)

lemma to_double_relative_error:
  assumes "to_double x = Fin r" and "pow2 (- 1022) \<le> \<bar>x\<bar>" and "\<bar>x\<bar> < pow2 1024"
  shows "\<bar>r - x\<bar> \<le> \<bar>x\<bar> * pow2 (- 53)"
proof -
  have e: "pow2 (exponent \<bar>x\<bar>) \<le> \<bar>x\<bar>"
    using exponent_spec [OF assms(2,3)] by simp
  have "pow2 (exponent \<bar>x\<bar> - 52) / 2 = pow2 (exponent \<bar>x\<bar>) * pow2 (- 53)"
    using pow2_add [of "exponent \<bar>x\<bar>" "- 53"] pow2_Suc [of "exponent \<bar>x\<bar> - 53"]
    by simp
  also have "\<dots> \<le> \<bar>x\<bar> * pow2 (- 53)"
    using e pow2_pos [of "- 53"] by (intro mult_right_mono) simp_all
  finally show ?thesis
    using to_double_error [OF assms(1)] by linarith
qed

text \<open>A value that lies in a row of a table is found in that row: the rows do not overlap.\<close>

lemma hladaj_M1:
  assumes "(od, do', s) \<in> set SADZBY_M1" and "js_gt x od" and "js_le x do'"
  shows "hladaj_sadzbu x SADZBY_M1 = Some s"
proof (cases x)
  case NaN
  with assms show ?thesis by (simp add: js_gt_def)
next
  case NInf
  with assms show ?thesis by (auto simp: js_gt_def SADZBY_M1_def)
next
  case (Fin r)
  with assms show ?thesis by (auto simp: SADZBY_M1_def)
next
  case PInf
  with assms show ?thesis by (auto simp: SADZBY_M1_def js_gt_def)
qed

lemma hladaj_N1:
  assumes "(od, do', s) \<in> set SADZBY_N1" and "js_gt x od" and "js_le x do'"
  shows "hladaj_sadzbu x SADZBY_N1 = Some s"
proof (cases x)
  case NaN
  with assms show ?thesis by (simp add: js_gt_def)
next
  case NInf
  with assms show ?thesis by (auto simp: js_gt_def SADZBY_N1_def)
next
  case (Fin r)
  with assms show ?thesis by (auto simp: SADZBY_N1_def)
next
  case PInf
  with assms show ?thesis by (auto simp: SADZBY_N1_def js_gt_def)
qed

lemma hladaj_M1_None:
  assumes "\<not> js_gt x (Fin 0)"
  shows "hladaj_sadzbu x SADZBY_M1 = None"
  using assms by (cases x) (auto simp: SADZBY_M1_def js_gt_def)

lemma hladaj_N1_None:
  assumes "\<not> (js_gt x (Fin 0) \<and> js_le x (Fin 12))"
  shows "hladaj_sadzbu x SADZBY_N1 = None"
  using assms by (cases x) (auto simp: SADZBY_N1_def js_gt_def)

lemma hladaj_koef_2024:
  assumes "(od, do', k) \<in> set UPRAVA_2024" and "js_ge x od" and "js_lt x do'"
  shows "hladaj_koef x UPRAVA_2024 = Some k"
  using assms by (cases x) (auto simp: UPRAVA_2024_def js_ge_def)

lemma hladaj_koef_2025:
  assumes "(od, do', k) \<in> set UPRAVA_2025" and "js_ge x od" and "js_lt x do'"
  shows "hladaj_koef x UPRAVA_2025 = Some k"
  using assms by (cases x) (auto simp: UPRAVA_2025_def js_ge_def)

lemma hladaj_koef_2024_top:
  assumes "js_ge x (Fin 156)"
  shows "(case hladaj_koef x UPRAVA_2024 of Some k \<Rightarrow> k | None \<Rightarrow> Fin 1.20) = Fin 1.20"
  using assms by (cases x) (auto simp: UPRAVA_2024_def js_ge_def)

lemma hladaj_koef_2025_top:
  assumes "js_ge x (Fin 180)"
  shows "(case hladaj_koef x UPRAVA_2025 of Some k \<Rightarrow> k | None \<Rightarrow> Fin 1.50) = Fin 1.50"
  using assms by (cases x) (auto simp: UPRAVA_2025_def js_ge_def)

lemma last_UPRAVA: "snd (snd (last UPRAVA_2024)) = Fin 1.20" "snd (snd (last UPRAVA_2025)) = Fin 1.50"
  by (simp_all add: UPRAVA_2024_def UPRAVA_2025_def)

lemma getZakladnaSadzba_finite: "js_finite (getZakladnaSadzba kat obj hm)"
  by (cases "ToNumber obj"; cases "js_div (ToNumber hm) (Fin 1000)")
     (auto simp: getZakladnaSadzba_def SADZBY_M1_def SADZBY_N1_def SADZBY_O_def
       js_or_val_def js_or_def js_gt_def Let_def js_finite_def)

lemma getKoefVeku_finite: "js_finite (getKoefVeku rok x)"
  by (cases x)
     (auto simp: getKoefVeku_def UPRAVA_2024_def UPRAVA_2025_def js_ge_def Let_def js_finite_def)

lemma getZakladnaSadzba_M1:
  assumes "kat = ''M1'' \<or> kat = ''L''"
  shows "getZakladnaSadzba kat obj hm =
           (case hladaj_sadzbu (ToNumber obj) SADZBY_M1 of Some s \<Rightarrow> s | None \<Rightarrow> Fin 218)"
  using assms by (auto simp: getZakladnaSadzba_def)

lemma getZakladnaSadzba_hmotnost:
  assumes "kat \<noteq> ''M1''" and "kat \<noteq> ''L''" and "\<not> startsWith kat ''O''"
  shows "getZakladnaSadzba kat obj hm =
           (case hladaj_sadzbu (js_div (ToNumber hm) (Fin 1000)) SADZBY_N1 of
              Some s \<Rightarrow> s | None \<Rightarrow> Fin 115)"
  using assms by (simp add: getZakladnaSadzba_def Let_def)

section \<open>The base rate\<close>

text \<open>
  Claim C3, as amended. The resolver follows the rule \<open>(od, do]\<close> in every row of both
  tables: for the categories \<open>M1\<close> and \<open>L\<close> a displacement that is above \<open>od\<close> and at
  most \<open>do\<close> gets the rate of that row, so \<open>900\<close> gives 62 and \<open>900.01\<close> gives 80. Every
  category other than \<open>M1\<close>, \<open>L\<close> and those that start with \<open>O\<close>, \<open>N1\<close> included, is
  resolved by its mass in tons in the mass table, so for \<open>N1\<close> 2 t gives 115 and 2.01 t
  gives 148; such a category gets the fallback 115 when its mass in tons lies in no row
  (it is not above 0, or it is above the last bound 12, or it is not a number).
\<close>

theorem getZakladnaSadzba_brackets:
  "(kat = ''M1'' \<or> kat = ''L'' \<longrightarrow>
      ((od, do', s) \<in> set SADZBY_M1 \<and> js_gt (ToNumber obj) od \<and> js_le (ToNumber obj) do'
         \<longrightarrow> getZakladnaSadzba kat obj hm = s) \<and>
      getZakladnaSadzba kat (Some (Fin 900)) hm = Fin 62 \<and>
      getZakladnaSadzba kat (Some (Fin 900.01)) hm = Fin 80) \<and>
   (kat \<noteq> ''M1'' \<and> kat \<noteq> ''L'' \<and> \<not> startsWith kat ''O'' \<longrightarrow>
      ((od, do', s) \<in> set SADZBY_N1 \<and>
       js_gt (js_div (ToNumber hm) (Fin 1000)) od \<and> js_le (js_div (ToNumber hm) (Fin 1000)) do'
         \<longrightarrow> getZakladnaSadzba kat obj hm = s) \<and>
      (\<not> (js_gt (js_div (ToNumber hm) (Fin 1000)) (Fin 0) \<and>
           js_le (js_div (ToNumber hm) (Fin 1000)) (Fin 12))
         \<longrightarrow> getZakladnaSadzba kat obj hm = Fin 115)) \<and>
   getZakladnaSadzba ''N1'' obj (Some (Fin 2000)) = Fin 115 \<and>
   getZakladnaSadzba ''N1'' obj (Some (Fin 2010)) = Fin 148 \<and>
   (js_gt (js_div (ToNumber hm) (Fin 1000)) (Fin 12)
      \<longrightarrow> getZakladnaSadzba ''N1'' obj hm = Fin 115)"
proof -
  have m: "getZakladnaSadzba kat obj hm = s"
    if "kat = ''M1'' \<or> kat = ''L''" "(od, do', s) \<in> set SADZBY_M1"
      "js_gt (ToNumber obj) od" "js_le (ToNumber obj) do'"
    using that by (simp add: getZakladnaSadzba_M1 hladaj_M1)
  have m900: "getZakladnaSadzba kat (Some (Fin 900)) hm = Fin 62"
    "getZakladnaSadzba kat (Some (Fin 900.01)) hm = Fin 80" if "kat = ''M1'' \<or> kat = ''L''"
    using that by (simp_all add: getZakladnaSadzba_M1 SADZBY_M1_def)
  have n: "getZakladnaSadzba kat obj hm = s"
    if "kat \<noteq> ''M1''" "kat \<noteq> ''L''" "\<not> startsWith kat ''O''" "(od, do', s) \<in> set SADZBY_N1"
      "js_gt (js_div (ToNumber hm) (Fin 1000)) od" "js_le (js_div (ToNumber hm) (Fin 1000)) do'"
    using that by (simp add: getZakladnaSadzba_hmotnost hladaj_N1)
  have f: "getZakladnaSadzba kat obj hm = Fin 115"
    if "kat \<noteq> ''M1''" "kat \<noteq> ''L''" "\<not> startsWith kat ''O''"
      "\<not> (js_gt (js_div (ToNumber hm) (Fin 1000)) (Fin 0) \<and>
          js_le (js_div (ToNumber hm) (Fin 1000)) (Fin 12))"
    using that by (simp add: getZakladnaSadzba_hmotnost hladaj_N1_None)
  have n1: "getZakladnaSadzba ''N1'' obj (Some (Fin 2000)) = Fin 115"
    "getZakladnaSadzba ''N1'' obj (Some (Fin 2010)) = Fin 148"
    by (simp_all add: getZakladnaSadzba_def SADZBY_N1_def startsWith_def)
  have top: "getZakladnaSadzba ''N1'' obj hm = Fin 115"
    if "js_gt (js_div (ToNumber hm) (Fin 1000)) (Fin 12)"
  proof -
    have "\<not> js_le (js_div (ToNumber hm) (Fin 1000)) (Fin 12)"
      using that by (cases "js_div (ToNumber hm) (Fin 1000)") (simp_all add: js_gt_def)
    then have "hladaj_sadzbu (js_div (ToNumber hm) (Fin 1000)) SADZBY_N1 = None"
      by (simp add: hladaj_N1_None)
    then show ?thesis by (simp add: getZakladnaSadzba_def startsWith_def)
  qed
  show ?thesis
    using m m900 n f n1 top by blast
qed

theorem getZakladnaSadzba_brackets_witness:
  "getZakladnaSadzba ''L'' (Some (Fin 1200)) None = Fin 80 \<and>
   getZakladnaSadzba ''M1'' (Some (Fin 900.01)) None = Fin 80 \<and>
   getZakladnaSadzba ''N1'' None (Some (Fin 4000)) = Fin 148 \<and>
   getZakladnaSadzba ''N2'' None None = Fin 115 \<and>
   getZakladnaSadzba ''N1'' None (Some (Fin 12001)) = Fin 115"
  using getZakladnaSadzba_brackets
          [of "''L''" "Fin 900" "Fin 1200" "Fin 80" "Some (Fin 1200)" None]
        getZakladnaSadzba_brackets
          [of "''M1''" "Fin 900" "Fin 1200" "Fin 80" "Some (Fin 900.01)" None]
        getZakladnaSadzba_brackets
          [of "''N1''" "Fin 2" "Fin 4" "Fin 148" None "Some (Fin 4000)"]
        getZakladnaSadzba_brackets [of "''N2''" "Fin 2" "Fin 4" "Fin 148" None None]
        getZakladnaSadzba_brackets
          [of "''N1''" "Fin 2" "Fin 4" "Fin 148" None "Some (Fin 12001)"]
  by (simp add: SADZBY_M1_def SADZBY_N1_def startsWith_def js_gt_def)

text \<open>
  The claim as it was stated also sends every category that is not matched to the rate 115.
  A category such as \<open>N2\<close> is not matched by the first two tests and is then handled like
  \<open>N1\<close>: with a mass of 3000 kg its rate is 148.
\<close>

theorem getZakladnaSadzba_other_category_counterexample:
  "getZakladnaSadzba ''N2'' None (Some (Fin 3000)) = Fin 148 \<and>
   getZakladnaSadzba ''N2'' None (Some (Fin 3000)) \<noteq> Fin 115"
  by (simp add: getZakladnaSadzba_def SADZBY_N1_def startsWith_def)

text \<open>
  Claim C9. For a vehicle of category \<open>M1\<close> or \<open>L\<close> whose displacement is 0 or absent
  the base rate is 218, the rate of the top row and the fallback for every displacement
  that no row matches, and not 50, the rate of the lowest row. The same holds in the
  dialog, where an empty displacement field is read as 0.
\<close>

theorem getZakladnaSadzba_unset_displacement:
  assumes "kat = ''M1'' \<or> kat = ''L''"
  shows "(obj = None \<or> obj = Some (Fin 0) \<or> obj = Some NaN
            \<longrightarrow> getZakladnaSadzba kat obj hm = Fin 218) \<and>
         (hladaj_sadzbu (ToNumber obj) SADZBY_M1 = None
            \<longrightarrow> getZakladnaSadzba kat obj hm = Fin 218) \<and>
         (vKategoria f = kat \<and> (vObjem f = NaN \<or> vObjem f = Fin 0)
            \<longrightarrow> fst (prepocitat rok f) = Fin 218) \<and>
         snd (snd (last SADZBY_M1)) = Fin 218 \<and>
         snd (snd (hd SADZBY_M1)) = Fin 50 \<and>
         Fin 218 \<noteq> Fin 50"
proof -
  have none: "hladaj_sadzbu (ToNumber x) SADZBY_M1 = None"
    if "x = None \<or> x = Some (Fin 0) \<or> x = Some NaN" for x
    using that by (auto simp: hladaj_M1_None js_gt_def)
  have 1: "getZakladnaSadzba kat obj hm = Fin 218"
    if "obj = None \<or> obj = Some (Fin 0) \<or> obj = Some NaN"
    using assms none [OF that] by (simp add: getZakladnaSadzba_M1)
  have 2: "getZakladnaSadzba kat obj hm = Fin 218"
    if "hladaj_sadzbu (ToNumber obj) SADZBY_M1 = None"
    using assms that by (simp add: getZakladnaSadzba_M1)
  have 3: "fst (prepocitat rok f) = Fin 218"
    if "vKategoria f = kat \<and> (vObjem f = NaN \<or> vObjem f = Fin 0)"
  proof -
    from that have "js_or (vObjem f) (Fin 0) = Fin 0"
      by (auto simp: js_or_def)
    with that assms none [of "Some (Fin 0)"] show ?thesis
      by (simp add: prepocitat_def Let_def getZakladnaSadzba_M1)
  qed
  have 4: "snd (snd (last SADZBY_M1)) = Fin 218" "snd (snd (hd SADZBY_M1)) = Fin 50"
    by (simp_all add: SADZBY_M1_def)
  show ?thesis
    using 1 2 3 4 by simp
qed

theorem getZakladnaSadzba_unset_displacement_witness:
  "getZakladnaSadzba ''M1'' None None = Fin 218 \<and>
   getZakladnaSadzba ''L'' (Some (Fin 0)) None = Fin 218 \<and>
   getZakladnaSadzba ''M1'' (Some (Fin (- 5))) None = Fin 218 \<and>
   fst (prepocitat (Fin 2024) (priklad_formular\<lparr>vObjem := NaN\<rparr>)) = Fin 218"
  using getZakladnaSadzba_unset_displacement [of "''M1''" None None]
        getZakladnaSadzba_unset_displacement [of "''L''" "Some (Fin 0)" None]
        getZakladnaSadzba_unset_displacement [of "''M1''" "Some (Fin (- 5))" None]
        getZakladnaSadzba_unset_displacement
          [of "''M1''" None None "priklad_formular\<lparr>vObjem := NaN\<rparr>" "Fin 2024"]
  by (simp add: SADZBY_M1_def js_gt_def priklad_formular_def)

section \<open>The age coefficient\<close>

text \<open>
  Claim C4. For the tax year \<open>y\<close> the coefficient of an age is looked up with the rule
  \<open>[od, do)\<close> in the table for the years before 2025 when \<open>y < 2025\<close>, and in the table
  for the years from 2025 otherwise. An age of exactly 36 months before 2025 has the
  coefficient 0.80 and not 0.75. An age at or beyond the highest bound, 156 months before
  2025 and 180 months from 2025, the infinite age included, has the coefficient of the
  last row.
\<close>

theorem getKoefVeku_schedule:
  fixes y :: int
  shows
  "(y < 2025 \<and> (od, do', k) \<in> set UPRAVA_2024 \<and> js_ge a od \<and> js_lt a do'
      \<longrightarrow> getKoefVeku (Fin (of_int y)) a = k) \<and>
   (2025 \<le> y \<and> (od, do', k) \<in> set UPRAVA_2025 \<and> js_ge a od \<and> js_lt a do'
      \<longrightarrow> getKoefVeku (Fin (of_int y)) a = k) \<and>
   (y < 2025 \<longrightarrow> getKoefVeku (Fin (of_int y)) (Fin 36) = Fin 0.80 \<and>
                  getKoefVeku (Fin (of_int y)) (Fin 36) \<noteq> Fin 0.75) \<and>
   (y < 2025 \<and> js_ge a (Fin 156)
      \<longrightarrow> getKoefVeku (Fin (of_int y)) a = snd (snd (last UPRAVA_2024)) \<and>
          getKoefVeku (Fin (of_int y)) a = Fin 1.20) \<and>
   (2025 \<le> y \<and> js_ge a (Fin 180)
      \<longrightarrow> getKoefVeku (Fin (of_int y)) a = snd (snd (last UPRAVA_2025)) \<and>
          getKoefVeku (Fin (of_int y)) a = Fin 1.50)"
proof -
  have old: "getKoefVeku (Fin (of_int y)) b =
      (case hladaj_koef b UPRAVA_2024 of Some k \<Rightarrow> k | None \<Rightarrow> Fin 1.20)" if "y < 2025" for b
    using that by (simp add: getKoefVeku_def last_UPRAVA split: option.split)
  have new: "getKoefVeku (Fin (of_int y)) b =
      (case hladaj_koef b UPRAVA_2025 of Some k \<Rightarrow> k | None \<Rightarrow> Fin 1.50)" if "2025 \<le> y" for b
    using that by (simp add: getKoefVeku_def last_UPRAVA split: option.split)
  have 1: "getKoefVeku (Fin (of_int y)) a = k"
    if "y < 2025" "(od, do', k) \<in> set UPRAVA_2024" "js_ge a od" "js_lt a do'"
    using that by (simp add: old hladaj_koef_2024)
  have 2: "getKoefVeku (Fin (of_int y)) a = k"
    if "2025 \<le> y" "(od, do', k) \<in> set UPRAVA_2025" "js_ge a od" "js_lt a do'"
    using that by (simp add: new hladaj_koef_2025)
  have 3: "getKoefVeku (Fin (of_int y)) (Fin 36) = Fin 0.80 \<and>
           getKoefVeku (Fin (of_int y)) (Fin 36) \<noteq> Fin 0.75" if "y < 2025"
    using that by (simp add: old UPRAVA_2024_def)
  have 4: "getKoefVeku (Fin (of_int y)) a = snd (snd (last UPRAVA_2024)) \<and>
           getKoefVeku (Fin (of_int y)) a = Fin 1.20" if "y < 2025" "js_ge a (Fin 156)"
    using that by (simp add: old hladaj_koef_2024_top last_UPRAVA)
  have 5: "getKoefVeku (Fin (of_int y)) a = snd (snd (last UPRAVA_2025)) \<and>
           getKoefVeku (Fin (of_int y)) a = Fin 1.50" if "2025 \<le> y" "js_ge a (Fin 180)"
    using that by (simp add: new hladaj_koef_2025_top last_UPRAVA)
  show ?thesis
    using 1 2 3 4 5 by blast
qed

theorem getKoefVeku_schedule_witness:
  "getKoefVeku (Fin 2024) (Fin 36) = Fin 0.80 \<and>
   getKoefVeku (Fin 2024) (Fin 35) = Fin 0.75 \<and>
   getKoefVeku (Fin 2025) (Fin 36) = Fin 1.10 \<and>
   getKoefVeku (Fin 2024) (Fin 156) = Fin 1.20 \<and>
   getKoefVeku (Fin 2025) PInf = Fin 1.50"
  using getKoefVeku_schedule [of 2024 "Fin 36" "Fin 72" "Fin 0.80" "Fin 36"]
        getKoefVeku_schedule [of 2024 "Fin 0" "Fin 36" "Fin 0.75" "Fin 35"]
        getKoefVeku_schedule [of 2025 "Fin 36" "Fin 72" "Fin 1.10" "Fin 36"]
        getKoefVeku_schedule [of 2024 "Fin 0" "Fin 36" "Fin 0.75" "Fin 156"]
        getKoefVeku_schedule [of 2025 "Fin 0" "Fin 36" "Fin 0.75" PInf]
  by (simp add: UPRAVA_2024_def UPRAVA_2025_def js_ge_def)

section \<open>Recomputation of the vehicles\<close>

lemma prepocitatVsetky_nth:
  "i < length vs \<Longrightarrow> prepocitatVsetky rok vs ! i = prepocitaj rok (vs ! i)"
  by (simp add: prepocitatVsetky_def)

lemma prepocitaj_idem: "prepocitaj rok (prepocitaj rok v) = prepocitaj rok v"
  by (simp add: prepocitaj_def Let_def)

text \<open>
  Claim C1. After \<^verbatim>\<open>prepocitatVsetky\<close> every vehicle of the list has the tax
  \<open>adjusted rate / 12 \<times> months held\<close>. The adjusted rate is the base rate, multiplied
  by the age coefficient only when the age is above 0 and the category does not start with
  \<open>O\<close>, then halved when the hybrid or the gas flag is set, then halved again when the
  combined-transport flag is set. With an eco flag and the combined-transport flag set it
  is the aged rate times 0.25, that is base rate \<times> age coefficient \<times> 0.25 when the
  coefficient applies.
\<close>

theorem prepocitatVsetky_formula:
  assumes "i < length vs"
  shows
  "(let v = vs ! i;
        v' = prepocitatVsetky rok vs ! i;
        base = getZakladnaSadzba (kategoria v) (objem v) (hmotnost v);
        age = vypocitajVek rok (datum v);
        coef = getKoefVeku rok age;
        applies = (js_gt age (Fin 0) \<and> \<not> startsWith (kategoria v) ''O'');
        aged = (if applies then js_mul base coef else base);
        eco = (hybrid v \<or> plyn v);
        halved = (if eco then js_mul aged (Fin 0.5) else aged);
        adjusted = (if kombi v then js_mul halved (Fin 0.5) else halved)
    in zakladnaSadzba v' = Some base \<and>
       vek v' = Some age \<and>
       sadzba v' = Some adjusted \<and>
       dan v' = Some (js_mul (js_div adjusted (Fin 12)) (ToNumber (mesiace v))) \<and>
       (eco \<and> kombi v \<longrightarrow> adjusted = js_mul aged (Fin 0.25)) \<and>
       (eco \<and> kombi v \<and> applies \<longrightarrow> adjusted = js_mul (js_mul base coef) (Fin 0.25)))"
  using assms
  by (simp add: prepocitatVsetky_nth prepocitaj_def Let_def js_mul_half_half_simp)

lemma koniec_2024: "new_Date (Fin 2024) (Fin 11) (Fin 31) = Some 20088"
  by code_simp

lemma ym_20088: "year_month_of_day 20088 = (2024, 11)"
  by code_simp

lemma vypocitajVek_parts:
  "split CHR ''.'' str = [p0, p1, p2] \<Longrightarrow> str \<noteq> [] \<Longrightarrow>
   vypocitajVek rok (Some str) =
     Math_max (Fin 0)
       (js_add
         (js_mul
           (js_sub (getFullYear (new_Date rok (Fin 11) (Fin 31)))
             (getFullYear (new_Date (StringToNumber p2) (js_sub (StringToNumber p1) (Fin 1))
                (StringToNumber p0))))
           (Fin 12))
         (js_sub (getMonth (new_Date rok (Fin 11) (Fin 31)))
           (getMonth (new_Date (StringToNumber p2) (js_sub (StringToNumber p1) (Fin 1))
              (StringToNumber p0)))))"
  by (simp add: vypocitajVek_def Let_def)

lemmas text_eval = StringToNumber_def trim_def is_white_def parse_unsigned_decimal_def
  parse_mantissa_def parse_digits_def parse_digits0_def parse_exponent_def digit_val_def
  is_e_def radix_of_def

lemma priklad_vek: "vypocitajVek (Fin 2024) (Some ''15.3.2005'') = Fin 237"
proof -
  have s: "split CHR ''.'' ''15.3.2005'' = [''15'', ''3'', ''2005'']" by simp
  have n: "StringToNumber ''15'' = Fin 15" "StringToNumber ''3'' = Fin 3"
    "StringToNumber ''2005'' = Fin 2005"
    by (simp_all add: text_eval)
  have d: "new_Date (Fin 2005) (Fin 2) (Fin 15) = Some 12857" by code_simp
  have ym: "year_month_of_day 12857 = (2005, 2)" by code_simp
  show ?thesis
    by (simp add: vypocitajVek_parts [OF s] n d koniec_2024 getFullYear_def getMonth_def
        ym_20088 ym js_sub_def)
qed

lemma priklad_zakladna: "getZakladnaSadzba ''M1'' (Some (Fin 1400)) None = Fin 115"
  by (simp add: getZakladnaSadzba_def SADZBY_M1_def)

lemma priklad_koef: "getKoefVeku (Fin 2024) (Fin 237) = Fin 1.2"
  by (simp add: getKoefVeku_def UPRAVA_2024_def)

theorem prepocitatVsetky_formula_witness:
  "dan (prepocitatVsetky (Fin 2024) [priklad_vozidlo] ! 0) = Some (Fin 138) \<and>
   sadzba (prepocitatVsetky (Fin 2024) [priklad_vozidlo\<lparr>plyn := True, kombi := True\<rparr>] ! 0) =
     Some (js_mul (js_mul (Fin 115) (Fin 1.2)) (Fin 0.25)) \<and>
   dan (prepocitatVsetky (Fin 2024) [priklad_vozidlo\<lparr>plyn := True, kombi := True\<rparr>] ! 0) =
     Some (Fin 34.5)"
  using prepocitatVsetky_formula [of 0 "[priklad_vozidlo]" "Fin 2024"]
        prepocitatVsetky_formula
          [of 0 "[priklad_vozidlo\<lparr>plyn := True, kombi := True\<rparr>]" "Fin 2024"]
  by (simp add: Let_def priklad_vozidlo_def priklad_vek priklad_zakladna priklad_koef
      startsWith_def)

text \<open>
  Claim C7. \<^verbatim>\<open>prepocitatVsetky\<close> is idempotent: with the same tax year, a second call
  leaves every vehicle, and so each of its derived fields (base rate, age, adjusted rate,
  tax), as the first call left it.
\<close>

theorem prepocitatVsetky_idempotent:
  "prepocitatVsetky rok (prepocitatVsetky rok vs) = prepocitatVsetky rok vs"
  by (simp add: prepocitatVsetky_def prepocitaj_idem)

text \<open>
  Claim C10. The halving for an eco vehicle is applied once: with the hybrid flag and the
  gas flag both set, the adjusted rate and the tax are those with only one of the two set,
  and the adjusted rate is one half of the rate with neither set. This holds for
  \<^verbatim>\<open>prepocitatVsetky\<close> on a vehicle and for \<^verbatim>\<open>prepocitat\<close> on the dialog.
\<close>

theorem eco_halving_once:
  "sadzba (prepocitaj rok (v\<lparr>hybrid := True, plyn := True\<rparr>)) =
     sadzba (prepocitaj rok (v\<lparr>hybrid := True, plyn := False\<rparr>)) \<and>
   sadzba (prepocitaj rok (v\<lparr>hybrid := True, plyn := True\<rparr>)) =
     sadzba (prepocitaj rok (v\<lparr>hybrid := False, plyn := True\<rparr>)) \<and>
   dan (prepocitaj rok (v\<lparr>hybrid := True, plyn := True\<rparr>)) =
     dan (prepocitaj rok (v\<lparr>hybrid := True, plyn := False\<rparr>)) \<and>
   dan (prepocitaj rok (v\<lparr>hybrid := True, plyn := True\<rparr>)) =
     dan (prepocitaj rok (v\<lparr>hybrid := False, plyn := True\<rparr>)) \<and>
   sadzba (prepocitaj rok (v\<lparr>hybrid := True, plyn := True\<rparr>)) =
     map_option (\<lambda>s. js_mul s (Fin 0.5))
       (sadzba (prepocitaj rok (v\<lparr>hybrid := False, plyn := False\<rparr>))) \<and>
   prepocitat rok (f\<lparr>vHybrid := True, vPlyn := True\<rparr>) =
     prepocitat rok (f\<lparr>vHybrid := True, vPlyn := False\<rparr>) \<and>
   prepocitat rok (f\<lparr>vHybrid := True, vPlyn := True\<rparr>) =
     prepocitat rok (f\<lparr>vHybrid := False, vPlyn := True\<rparr>) \<and>
   fst (snd (prepocitat rok (f\<lparr>vHybrid := True, vPlyn := True\<rparr>))) =
     js_mul (fst (snd (prepocitat rok (f\<lparr>vHybrid := False, vPlyn := False\<rparr>)))) (Fin 0.5)"
  by (simp add: prepocitaj_def prepocitat_def Let_def)

section \<open>The age of a vehicle\<close>

text \<open>
  A date of three parts whose year part is not a number makes an invalid Date, and the
  age is \<open>NaN\<close>: \<^verbatim>\<open>Math.max(0, NaN)\<close> is \<open>NaN\<close>.
\<close>

lemma new_Date_NaN: "new_Date NaN m d = None"
  by (simp add: new_Date_def)

lemma js_add_NaN_right: "js_add x NaN = NaN"
  by (cases x) simp_all

lemma js_mul_NaN_left: "js_mul NaN x = NaN"
  by (cases x) simp_all

lemma Math_max_NaN_right: "Math_max x NaN = NaN"
  by (cases x) simp_all

lemma vypocitajVek_NaN_year:
  assumes "split CHR ''.'' str = [p0, p1, p2]" and "str \<noteq> []" and "StringToNumber p2 = NaN"
  shows "vypocitajVek rok (Some str) = NaN"
  by (simp add: vypocitajVek_parts [OF assms(1,2)] assms(3) new_Date_NaN getFullYear_def
      getMonth_def js_sub_def js_add_NaN_right js_mul_NaN_left Math_max_NaN_right)

text \<open>
  Claim C6, at an input where the program departs from it. The string \<open>a.b.c\<close> is not a
  date, and the claim gives it the age 0. It has three parts, so neither of the two early
  returns applies; the parts are not numbers, the Date is invalid, and the computed age is
  \<open>NaN\<close> for the tax year 2024 (and for every other).
\<close>

theorem vypocitajVek_malformed_is_NaN:
  "vypocitajVek (Fin 2024) (Some ''a.b.c'') = NaN \<and>
   vypocitajVek (Fin 2024) (Some ''a.b.c'') \<noteq> Fin 0 \<and>
   vek (prepocitaj (Fin 2024) (priklad_vozidlo\<lparr>datum := Some ''a.b.c''\<rparr>)) = Some NaN"
proof -
  have s: "split CHR ''.'' ''a.b.c'' = [''a'', ''b'', ''c'']" by simp
  have c: "StringToNumber ''c'' = NaN" by (simp add: text_eval)
  have "vypocitajVek (Fin 2024) (Some ''a.b.c'') = NaN"
    by (rule vypocitajVek_NaN_year [OF s _ c]) simp
  then show ?thesis
    by (simp add: prepocitaj_def Let_def)
qed

text \<open>
  The calendar of the Date model is the proleptic Gregorian calendar: a day of a month,
  29 February apart, is mapped to a day number and back to its year and month.
\<close>

lemma era_split:
  fixes era doe :: int
  assumes "0 \<le> doe" and "doe < 146097"
  shows "(era * 146097 + doe) div 146097 = era" and "(era * 146097 + doe) mod 146097 = doe"
  using assms by (auto simp: div_pos_pos_trivial mod_pos_pos_trivial)

lemma year_of_era:
  fixes yoe doy :: int
  assumes "0 \<le> yoe" and "yoe < 400" and "0 \<le> doy" and "doy \<le> 364"
  defines "doe \<equiv> yoe * 365 + yoe div 4 - yoe div 100 + doy"
  shows "0 \<le> doe" and "doe < 146097"
    and "(doe - doe div 1460 + doe div 36524 - doe div 146096) div 365 = yoe"
proof -
  define c where "c = yoe div 100"
  define t where "t = yoe mod 100"
  define s where "s = t div 4"
  define u where "u = t mod 4"
  have yoe: "yoe = 100 * c + 4 * s + u"
    unfolding c_def t_def s_def u_def by presburger
  have bounds: "0 \<le> c" "c \<le> 3" "0 \<le> s" "s \<le> 24" "0 \<le> u" "u \<le> 3"
    using assms(1,2) unfolding c_def t_def s_def u_def by presburger+
  have d4: "yoe div 4 = 25 * c + s"
    using bounds unfolding yoe by presburger
  have d100: "yoe div 100 = c"
    by (simp add: c_def)
  have doe: "doe = 36524 * c + 1461 * s + 365 * u + doy"
    unfolding doe_def d4 d100 unfolding yoe by simp
  show nonneg: "0 \<le> doe"
    unfolding doe using bounds assms(3) by simp
  show lt: "doe < 146097"
    unfolding doe using bounds assms(4) by simp
  have q36524: "doe div 36524 = c"
    by (rule int_div_pos_eq [where r = "1461 * s + 365 * u + doy"])
       (use bounds assms(3,4) in \<open>simp_all add: doe\<close>)
  have q146096: "doe div 146096 = 0"
    using nonneg bounds assms(4) unfolding doe by (intro div_pos_pos_trivial) simp_all
  define R where "R = 24 * c + s + 365 * u + doy"
  have Rb: "0 \<le> R" "R \<le> 1555"
    unfolding R_def using bounds assms(3,4) by simp_all
  have doeR: "doe = 1460 * (25 * c + s) + R"
    unfolding doe R_def by simp
  have q1460: "doe div 1460 = 25 * c + s + (if 1460 \<le> R then 1 else 0)"
  proof (cases "1460 \<le> R")
    case True
    have "doe div 1460 = 25 * c + s + 1"
      by (rule int_div_pos_eq [where r = "R - 1460"]) (use True Rb in \<open>simp_all add: doeR\<close>)
    with True show ?thesis by simp
  next
    case False
    have "doe div 1460 = 25 * c + s"
      by (rule int_div_pos_eq [where r = R]) (use False Rb in \<open>simp_all add: doeR\<close>)
    with False show ?thesis by simp
  qed
  have pos: "1 \<le> doy" if "1460 \<le> R"
    using that bounds unfolding R_def by simp
  define e where "e = (if 1460 \<le> R then 1 else 0 :: int)"
  have N: "doe - doe div 1460 + doe div 36524 - doe div 146096 = 365 * yoe + (doy - e)"
    unfolding q1460 q36524 q146096 e_def unfolding doe yoe by simp
  have eb: "0 \<le> doy - e" "doy - e < 365"
    using pos assms(3,4) unfolding e_def by (simp_all split: if_splits)
  show "(doe - doe div 1460 + doe div 36524 - doe div 146096) div 365 = yoe"
    unfolding N by (rule int_div_pos_eq [where r = "doy - e"]) (use eb in simp_all)
qed

lemma month_of_doy:
  fixes mp dd :: int
  assumes "0 \<le> mp" and "mp \<le> 11" and "0 \<le> dd"
    and "(153 * mp + 2) div 5 + dd < (153 * (mp + 1) + 2) div 5"
  shows "(5 * ((153 * mp + 2) div 5 + dd) + 2) div 153 = mp"
proof -
  from assms(1,2) consider "mp = 0" | "mp = 1" | "mp = 2" | "mp = 3" | "mp = 4" | "mp = 5"
    | "mp = 6" | "mp = 7" | "mp = 8" | "mp = 9" | "mp = 10" | "mp = 11"
    by atomize_elim arith
  then show ?thesis
    using assms(3,4) by cases simp_all
qed

lemma year_month_roundtrip:
  fixes y m dd :: int
  assumes m: "0 \<le> m" "m \<le> 11" and dd: "0 \<le> dd" "dd < days_in_month m"
  shows "year_month_of_day (day_of_month_start y m + dd) = (y, m)"
proof -
  define y' where "y' = (if m \<le> 1 then y - 1 else y)"
  define era where "era = y' div 400"
  define yoe where "yoe = y' mod 400"
  define mp where "mp = (m + 10) mod 12"
  define doy where "doy = (153 * mp + 2) div 5 + dd"
  define doe where "doe = yoe * 365 + yoe div 4 - yoe div 100 + doy"
  have yoe_b: "0 \<le> yoe" "yoe < 400"
    by (simp_all add: yoe_def)
  have y'_eq: "y' = era * 400 + yoe"
    by (simp add: era_def yoe_def)
  from m consider "m = 0" | "m = 1" | "m = 2" | "m = 3" | "m = 4" | "m = 5"
    | "m = 6" | "m = 7" | "m = 8" | "m = 9" | "m = 10" | "m = 11"
    by atomize_elim arith
  then have facts: "0 \<le> mp \<and> mp \<le> 11 \<and> (if mp < 10 then mp + 2 else mp - 10) = m \<and>
      (153 * mp + 2) div 5 + dd < (153 * (mp + 1) + 2) div 5 \<and> doy \<le> 364"
    using dd by cases (simp_all add: mp_def doy_def days_in_month_def)
  have "0 \<le> (153 * mp + 2) div 5"
    using facts by (simp add: pos_imp_zdiv_nonneg_iff)
  then have doy_b: "0 \<le> doy" "doy \<le> 364"
    using facts dd(1) by (simp_all add: doy_def)
  have "day_of_month_start y m =
          era * 146097 + (yoe * 365 + yoe div 4 - yoe div 100 + (153 * mp + 2) div 5) - 719468"
    unfolding day_of_month_start_def Let_def y'_def [symmetric]
    unfolding era_def [symmetric] yoe_def [symmetric] mp_def [symmetric] ..
  then have z: "day_of_month_start y m + dd + 719468 = era * 146097 + doe"
    by (simp add: doe_def doy_def)
  note ye = year_of_era [OF yoe_b doy_b, folded doe_def]
  have e1: "(era * 146097 + doe) div 146097 = era" and e2: "(era * 146097 + doe) mod 146097 = doe"
    using era_split [OF ye(1,2)] by simp_all
  have mo: "(5 * doy + 2) div 153 = mp"
    unfolding doy_def using facts dd(1) by (intro month_of_doy) simp_all
  have doy_eq: "doe - (365 * yoe + yoe div 4 - yoe div 100) = doy"
    by (simp add: doe_def)
  have yr: "yoe + era * 400 + (if m \<le> 1 then 1 else 0) = y"
    using y'_eq by (simp add: y'_def split: if_splits)
  have "year_month_of_day (day_of_month_start y m + dd) =
          (yoe + era * 400 + (if (if mp < 10 then mp + 2 else mp - 10) \<le> 1 then 1 else 0),
           if mp < 10 then mp + 2 else mp - 10)"
    unfolding year_month_of_day_def Let_def z e1 e2 ye(3) doy_eq mo ..
  also have "(if mp < 10 then mp + 2 else mp - 10) = m"
    using facts by blast
  finally have "year_month_of_day (day_of_month_start y m + dd) =
          (yoe + era * 400 + (if m \<le> 1 then 1 else 0), m)" .
  then show ?thesis
    by (simp only: yr)
qed

lemma trunc_of_int: "trunc (of_int n) = n"
  by (simp add: trunc_def)

lemma day_of_month_start_bound:
  fixes y m :: int
  assumes "0 \<le> y" and "y \<le> 9999" and "0 \<le> m" and "m \<le> 11"
  shows "\<bar>day_of_month_start y m\<bar> \<le> 4000000"
proof -
  define y' where "y' = (if m \<le> 1 then y - 1 else y)"
  define era where "era = y' div 400"
  define yoe where "yoe = y' mod 400"
  define mp where "mp = (m + 10) mod 12"
  define k where "k = (153 * mp + 2) div 5"
  have eq: "day_of_month_start y m =
          era * 146097 + (yoe * 365 + yoe div 4 - yoe div 100 + k) - 719468"
    unfolding day_of_month_start_def Let_def y'_def [symmetric]
    unfolding era_def [symmetric] yoe_def [symmetric] mp_def [symmetric] k_def [symmetric] ..
  have y': "- 1 \<le> y'" "y' \<le> 9999"
    using assms(1,2) by (simp_all add: y'_def)
  have era: "- 1 \<le> era" "era \<le> 24"
    using zdiv_mono1 [of "- 1" y' 400] zdiv_mono1 [of y' 9999 400] y'
    by (simp_all add: era_def)
  have yoe: "0 \<le> yoe" "yoe \<le> 399"
    using pos_mod_bound [of 400 y'] by (simp_all add: yoe_def)
  have q: "0 \<le> yoe div 4" "yoe div 4 \<le> 99" "0 \<le> yoe div 100" "yoe div 100 \<le> 3"
    using zdiv_mono1 [of 0 yoe 4] zdiv_mono1 [of yoe 399 4]
      zdiv_mono1 [of 0 yoe 100] zdiv_mono1 [of yoe 399 100] yoe
    by simp_all
  have mp: "0 \<le> mp" "mp \<le> 11"
    using pos_mod_bound [of 12 "m + 10"] by (simp_all add: mp_def)
  have k: "0 \<le> k" "k \<le> 337"
    using zdiv_mono1 [of 2 "153 * mp + 2" 5] zdiv_mono1 [of "153 * mp + 2" 1685 5] mp
    by (simp_all add: k_def)
  show ?thesis
    unfolding eq using era yoe q k by linarith
qed

lemma new_Date_valid:
  fixes y m d :: int
  assumes "100 \<le> y" and "y \<le> 9999" and "0 \<le> m" and "m \<le> 11" and "1 \<le> d" and "d \<le> 31"
  shows "new_Date (Fin (of_int y)) (Fin (of_int m)) (Fin (of_int d)) =
           Some (day_of_month_start y m + d - 1)"
proof -
  have dm: "m div 12 = 0" "m mod 12 = m"
    using assms(3,4) by simp_all
  have "\<bar>day_of_month_start y m\<bar> \<le> 4000000"
    using assms by (intro day_of_month_start_bound) simp_all
  then have b: "\<bar>day_of_month_start y m + d - 1\<bar> \<le> 100000000"
    using assms(5,6) by linarith
  have yr: "\<not> (0 \<le> y \<and> y \<le> 99)"
    using assms(1) by simp
  show ?thesis
    unfolding new_Date_def by (simp add: Let_def trunc_of_int dm yr b del: abs_le_iff)
qed

text \<open>
  For a date of three parts that read as a day, a month and a four-digit year of the
  calendar, and a tax year of up to four digits, the age is the month difference between
  December of the tax year and the month of the date, year difference \<open>\<times>\<close> 12 plus month
  difference, and 0 when that is negative.
\<close>

theorem vypocitajVek_well_formed:
  fixes D M Y R :: int
  assumes parts: "split CHR ''.'' str = [p0, p1, p2]" and ne: "str \<noteq> []"
    and p0: "StringToNumber p0 = Fin (of_int D)"
    and p1: "StringToNumber p1 = Fin (of_int M)"
    and p2: "StringToNumber p2 = Fin (of_int Y)"
    and D: "1 \<le> D" "D \<le> days_in_month (M - 1)"
    and M: "1 \<le> M" "M \<le> 12"
    and Y: "100 \<le> Y" "Y \<le> 9999"
    and R: "100 \<le> R" "R \<le> 9999"
  shows "vypocitajVek (Fin (of_int R)) (Some str) =
           Fin (of_int (max 0 ((R - Y) * 12 + (12 - M))))"
proof -
  from M consider "M = 1" | "M = 2" | "M = 3" | "M = 4" | "M = 5" | "M = 6"
    | "M = 7" | "M = 8" | "M = 9" | "M = 10" | "M = 11" | "M = 12"
    by atomize_elim arith
  then have D31: "D \<le> 31"
    using D(2) by cases (simp_all add: days_in_month_def)
  have sub: "js_sub (Fin (of_int M)) (Fin 1) = Fin (of_int (M - 1))"
    by (simp add: js_sub_def)
  have ev: "new_Date (Fin (of_int Y)) (Fin (of_int (M - 1))) (Fin (of_int D)) =
              Some (day_of_month_start Y (M - 1) + (D - 1))"
    using new_Date_valid [of Y "M - 1" D] Y M D(1) D31 by simp
  have ko: "new_Date (Fin (of_int R)) (Fin 11) (Fin 31) = Some (day_of_month_start R 11 + 30)"
    using new_Date_valid [of R 11 31] R by simp
  have ymE: "year_month_of_day (day_of_month_start Y (M - 1) + (D - 1)) = (Y, M - 1)"
    using M D by (intro year_month_roundtrip) simp_all
  have ymK: "year_month_of_day (day_of_month_start R 11 + 30) = (R, 11)"
    by (intro year_month_roundtrip) (simp_all add: days_in_month_def)
  have "vypocitajVek (Fin (of_int R)) (Some str) =
          Math_max (Fin 0)
            (js_add (js_mul (js_sub (Fin (of_int R)) (Fin (of_int Y))) (Fin 12))
               (js_sub (Fin 11) (Fin (of_int (M - 1)))))"
    unfolding vypocitajVek_parts [OF parts ne] p0 p1 p2 sub ev ko getFullYear_def getMonth_def
      option.case ymE ymK fst_conv snd_conv
    by simp
  also have "\<dots> = Fin (of_int (max 0 ((R - Y) * 12 + (12 - M))))"
    by (simp add: js_sub_def max_def)
  finally show ?thesis .
qed

theorem vypocitajVek_well_formed_witness:
  "vypocitajVek (Fin (of_int 2024)) (Some ''15.3.2005'') =
     Fin (of_int (max 0 ((2024 - 2005) * 12 + (12 - 3))))"
  by (rule vypocitajVek_well_formed [of "''15.3.2005''" "''15''" "''3''" "''2005''" 15])
     (simp_all add: text_eval days_in_month_def)

text \<open>A missing date, and a date that does not have exactly three parts, has the age 0.\<close>

theorem vypocitajVek_missing:
  "vypocitajVek rok None = Fin 0 \<and>
   vypocitajVek rok (Some []) = Fin 0 \<and>
   (length (split CHR ''.'' str) \<noteq> 3 \<longrightarrow> vypocitajVek rok (Some str) = Fin 0)"
proof -
  have "vypocitajVek rok (Some str) = Fin 0" if "length (split CHR ''.'' str) \<noteq> 3"
  proof (cases "split CHR ''.'' str")
    case Nil
    then show ?thesis by (simp add: vypocitajVek_def)
  next
    case (Cons a as)
    note 1 = this
    show ?thesis
    proof (cases as)
      case Nil
      with 1 show ?thesis by (simp add: vypocitajVek_def)
    next
      case (Cons b bs)
      note 2 = this
      show ?thesis
      proof (cases bs)
        case Nil
        with 1 2 show ?thesis by (simp add: vypocitajVek_def)
      next
        case (Cons c cs)
        with 1 2 that have "cs \<noteq> []" by auto
        then obtain e es where "cs = e # es" by (cases cs) auto
        with 1 2 Cons show ?thesis by (simp add: vypocitajVek_def)
      qed
    qed
  qed
  then show ?thesis
    by (simp add: vypocitajVek_def)
qed

theorem vypocitajVek_missing_witness:
  "vypocitajVek (Fin 2024) (Some ''3.2005'') = Fin 0 \<and>
   vypocitajVek (Fin 2024) (Some ''15.3.2005.'') = Fin 0"
  using vypocitajVek_missing [of "Fin 2024" "''3.2005''"]
        vypocitajVek_missing [of "Fin 2024" "''15.3.2005.''"]
  by simp

section \<open>Export\<close>

lemma cislice_1: "cislice (Suc 0) = ''1''"
  by (simp add: cislice.simps cifra_def)

lemma toFixed2_0: "toFixed2 (Fin 0) = Some ''0.00''"
  by (simp add: toFixed2_def cislice.simps cifra_def)

lemma toFixed2_138: "toFixed2 (Fin 138) = Some ''138.00''"
  by (simp add: toFixed2_def cislice.simps cifra_def)

text \<open>
  Claim C2. With an empty tax id or an empty list of vehicles \<^verbatim>\<open>exportXML\<close> only shows
  its message and returns: no request is sent to the server and no file, so no document,
  is produced, whether the page uses the server or not.
\<close>

theorem exportXML_rejects:
  assumes "dic sp = [] \<or> vs = []"
  shows "exportXML api sp rok vs = Alert (if dic sp = [] then Zadajte_DIC else Pridajte_vozidlo) \<and>
         (\<forall>meno obsah. exportXML api sp rok vs \<noteq> Subor meno obsah) \<and>
         (\<forall>sp' vs' rok'. exportXML api sp rok vs \<noteq> Server sp' vs' rok')"
  using assms by (auto simp: exportXML_def)

theorem exportXML_rejects_witness:
  "exportXML True (priklad_spolocnost\<lparr>dic := []\<rparr>) ''2024'' [priklad_vozidlo] = Alert Zadajte_DIC \<and>
   exportXML False (priklad_spolocnost\<lparr>dic := []\<rparr>) ''2024'' [priklad_vozidlo] = Alert Zadajte_DIC \<and>
   exportXML True priklad_spolocnost ''2024'' [] = Alert Pridajte_vozidlo \<and>
   exportXML False priklad_spolocnost ''2024'' [] = Alert Pridajte_vozidlo"
  using exportXML_rejects [of "priklad_spolocnost\<lparr>dic := []\<rparr>" "[priklad_vozidlo]" True "''2024''"]
        exportXML_rejects [of "priklad_spolocnost\<lparr>dic := []\<rparr>" "[priklad_vozidlo]" False "''2024''"]
        exportXML_rejects [of priklad_spolocnost "[]" True "''2024''"]
        exportXML_rejects [of priklad_spolocnost "[]" False "''2024''"]
  by (simp add: priklad_spolocnost_def)

text \<open>The place of the template that takes the name of the company.\<close>

lemma xml_dokument_nazov:
  "\<exists>pre po. xml_dokument sp rok p s =
     pre @ ''<poObchodneMeno><riadok>'' @ nazov sp @ ''</riadok></poObchodneMeno>'' @ po"
proof (intro exI)
  show "xml_dokument sp rok p s =
     (''<?xml version='' @ dq @ ''1.0'' @ dq @ '' encoding='' @ dq @ ''UTF-8'' @ dq @ ''?>'' @ nl @
      ''<dokument>'' @ nl @ ''<hlavicka>'' @ nl @
      ''<fo>0</fo><po>1</po><zahranicna>0</zahranicna>'' @ nl @
      ''<dic>'' @ dic sp @ ''</dic>'' @ nl @
      ''<typDP><rdp>1</rdp><odp>0</odp><ddp>0</ddp></typDP>'' @ nl @
      ''<zdanovacieObdobie><od>1.1.'' @ rok @ ''</od><do>31.12.'' @ rok @
      ''</do></zdanovacieObdobie>'' @ nl)
     @ ''<poObchodneMeno><riadok>'' @ nazov sp @ ''</riadok></poObchodneMeno>'' @
     (nl @ ''<sidlo>'' @ nl @
      ''<ulica>'' @ ulica sp @ ''</ulica>'' @ nl @
      ''<cislo>'' @ cislo sp @ ''</cislo>'' @ nl @
      ''<psc>'' @ psc sp @ ''</psc>'' @ nl @
      ''<obec>'' @ obec sp @ ''</obec>'' @ nl @
      ''<stat>Slovensk'' @ [CHR 0xE1] @ '' republika</stat>'' @ nl @
      ''</sidlo>'' @ nl @ ''</hlavicka>'' @ nl @ xml_telo p s @ ''</dokument>'')"
    by (simp add: xml_dokument_def xml_hlavicka_def)
qed

text \<open>Text without a reserved character is its own escaped text.\<close>

lemma spec_escape_id:
  "\<forall>c\<in>set str. c \<notin> set spec_reserved \<Longrightarrow> spec_escape str = str"
  by (induction str) (auto simp: spec_escape_def spec_escape_char_def spec_reserved_def)

lemma celkovaDan_bez_dane: "celkovaDan [priklad_vozidlo] = Fin 0"
  by (simp add: celkovaDan_def js_add_double_def to_double_def js_or_val_def priklad_vozidlo_def)

lemma priklad_export:
  "exportXML False priklad_spolocnost ''2024'' [priklad_vozidlo] =
     Subor ''dmv_2020123456_2024.xml''
       (Some (xml_dokument priklad_spolocnost ''2024'' ''1'' ''0.00''))"
  by (simp add: exportXML_def celkovaDan_bez_dane toFixed2_0 cislice_1 priklad_spolocnost_def)

text \<open>
  Claim C5, at an input where the program departs from it. A company named \<open>A&B\<close>
  exports one vehicle without the server. The document that \<^verbatim>\<open>exportXML\<close> writes has
  the name between its tags as it was read, \<open>A&B\<close>, where the claim has it escaped,
  \<open>A&amp;B\<close>: the document is not the template filled with the escaped company, and with
  its bare \<open>&\<close> it is not well-formed XML.
\<close>

theorem exportXML_name_not_escaped:
  "exportXML False priklad_spolocnost ''2024'' [priklad_vozidlo] =
     Subor ''dmv_2020123456_2024.xml''
       (Some (xml_dokument priklad_spolocnost ''2024'' ''1'' ''0.00'')) \<and>
   (\<exists>pre po. xml_dokument priklad_spolocnost ''2024'' ''1'' ''0.00'' =
      pre @ ''<poObchodneMeno><riadok>A&B</riadok></poObchodneMeno>'' @ po) \<and>
   spec_escape ''A&B'' = ''A&amp;B'' \<and>
   nazov (spec_escaped priklad_spolocnost) = ''A&amp;B'' \<and>
   xml_dokument priklad_spolocnost ''2024'' ''1'' ''0.00'' \<noteq>
     xml_dokument (spec_escaped priklad_spolocnost) ''2024'' ''1'' ''0.00''"
proof -
  have n: "nazov priklad_spolocnost = ''A&B''"
    by (simp add: priklad_spolocnost_def)
  have 1: "\<exists>pre po. xml_dokument priklad_spolocnost ''2024'' ''1'' ''0.00'' =
      pre @ ''<poObchodneMeno><riadok>A&B</riadok></poObchodneMeno>'' @ po"
    using xml_dokument_nazov [of priklad_spolocnost "''2024''" "''1''" "''0.00''"]
    by (simp add: n)
  have 2: "spec_escape ''A&B'' = ''A&amp;B''"
    by (simp add: spec_escape_def spec_escape_char_def)
  have 3: "nazov (spec_escaped priklad_spolocnost) = ''A&amp;B''"
    by (simp add: spec_escaped_def n 2)
  have 4: "xml_dokument priklad_spolocnost ''2024'' ''1'' ''0.00'' \<noteq>
        xml_dokument (spec_escaped priklad_spolocnost) ''2024'' ''1'' ''0.00''"
    by (simp add: xml_dokument_def xml_hlavicka_def spec_escaped_def spec_escape_def
        spec_escape_char_def priklad_spolocnost_def)
  show ?thesis
    by (intro conjI priklad_export 1 2 3 4)
qed



lemma priklad_prepocitaj:
  "prepocitaj (Fin 2024) priklad_vozidlo =
     priklad_vozidlo\<lparr>zakladnaSadzba := Some (Fin 115), sadzba := Some (Fin 138),
       vek := Some (Fin 237), dan := Some (Fin 138)\<rparr>"
  by (simp add: prepocitaj_def priklad_vozidlo_def priklad_vek priklad_zakladna priklad_koef
      startsWith_def Let_def)

lemma priklad_dan:
  "dan (prepocitaj (Fin 2024) priklad_vozidlo) = Some (Fin 138)" "dan priklad_vozidlo = None"
  by (simp_all add: priklad_prepocitaj) (simp add: priklad_vozidlo_def)

lemma to_double_138: "to_double 138 = Fin 138"
  by code_simp

lemma priklad_celkovaDan:
  "celkovaDan [prepocitaj (Fin 2024) priklad_vozidlo, priklad_vozidlo] = Fin 138"
  by (simp add: celkovaDan_def js_add_double_def js_or_val_def js_or_def priklad_dan
      to_double_138)


text \<open>
  Where the rounding of the addition shows. Two stored taxes: the double nearest to 52.7,
  which is \<open>3708432818162893 / 2\<^sup>4\<^sup>6\<close>, and 149.875. Their exact sum lies just above
  202.575 and half way between two doubles; the program's sum is the lower of the two,
  just below 202.575, and the export prints \<open>202.57\<close>, where the exact sum rounds to
  \<open>202.58\<close>.
\<close>

lemma priklad_zaokruhlenie:
  "celkovaDan [priklad_vozidlo\<lparr>dan := Some (Fin (3708432818162893 / 70368744177664))\<rparr>,
               priklad_vozidlo\<lparr>dan := Some (Fin (1199 / 8))\<rparr>] =
     Fin (3563737087947571 / 17592186044416)"
  "toFixed2 (Fin (3563737087947571 / 17592186044416)) = Some ''202.57''"
  "toFixed2 (Fin (3708432818162893 / 70368744177664 + 1199 / 8)) = Some ''202.58''"
proof -
  have a: "to_double (3708432818162893 / 70368744177664) =
             Fin (3708432818162893 / 70368744177664)"
    by code_simp
  have b: "to_double (3708432818162893 / 70368744177664 + 1199 / 8) =
             Fin (3563737087947571 / 17592186044416)"
    by code_simp
  have o1: "js_or_val (dan (priklad_vozidlo\<lparr>dan :=
                Some (Fin (3708432818162893 / 70368744177664))\<rparr>)) (Fin 0) =
             Fin (3708432818162893 / 70368744177664)"
    by (simp add: js_or_val_def js_or_def)
  have o2: "js_or_val (dan (priklad_vozidlo\<lparr>dan := Some (Fin (1199 / 8))\<rparr>)) (Fin 0) =
             Fin (1199 / 8)"
    by (simp add: js_or_val_def js_or_def)
  have z: "(0 :: real) + 3708432818162893 / 70368744177664 = 3708432818162893 / 70368744177664"
    by simp
  have p1: "js_add_double (Fin 0) (Fin (3708432818162893 / 70368744177664)) =
             Fin (3708432818162893 / 70368744177664)"
    by (simp only: js_add_double_def js_add.simps jsnum.case z a)
  have p2: "js_add_double (Fin (3708432818162893 / 70368744177664)) (Fin (1199 / 8)) =
             Fin (3563737087947571 / 17592186044416)"
    by (simp only: js_add_double_def js_add.simps jsnum.case b)
  show "celkovaDan [priklad_vozidlo\<lparr>dan := Some (Fin (3708432818162893 / 70368744177664))\<rparr>,
               priklad_vozidlo\<lparr>dan := Some (Fin (1199 / 8))\<rparr>] =
     Fin (3563737087947571 / 17592186044416)"
    by (simp only: celkovaDan_def foldl.simps o1 o2 p1 p2)
  have f1: "nat \<lfloor>\<bar>3563737087947571 / 17592186044416 :: real\<bar> * 100 + 1 / 2\<rfloor> = 20257"
    by code_simp
  have f2: "nat \<lfloor>\<bar>3708432818162893 / 70368744177664 + 1199 / 8 :: real\<bar> * 100 + 1 / 2\<rfloor> = 20258"
    by code_simp
  have s1: "\<not> 10 ^ 21 \<le> \<bar>3563737087947571 / 17592186044416 :: real\<bar>"
      "\<not> (3563737087947571 / 17592186044416 :: real) < 0"
    by simp_all
  have s2: "\<not> 10 ^ 21 \<le> \<bar>3708432818162893 / 70368744177664 + 1199 / 8 :: real\<bar>"
      "\<not> (3708432818162893 / 70368744177664 + 1199 / 8 :: real) < 0"
    by simp_all
  have c: "cislice (20257 div 100) = ''202''" "cifra (20257 div 10) = CHR ''5''"
      "cifra 20257 = CHR ''7''" "cislice (20258 div 100) = ''202''"
      "cifra (20258 div 10) = CHR ''5''" "cifra 20258 = CHR ''8''"
    by (simp_all add: cislice.simps cifra_def)
  show "toFixed2 (Fin (3563737087947571 / 17592186044416)) = Some ''202.57''"
    unfolding toFixed2_def jsnum.simps Let_def f1 by (simp only: s1 if_False c) simp
  show "toFixed2 (Fin (3708432818162893 / 70368744177664 + 1199 / 8)) = Some ''202.58''"
    unfolding toFixed2_def jsnum.simps Let_def f2 by (simp only: s2 if_False c) simp
qed

lemma priklad_export_zaokruhlenie:
  "exportXML False priklad_spolocnost ''2024''
       [priklad_vozidlo\<lparr>dan := Some (Fin (3708432818162893 / 70368744177664))\<rparr>,
        priklad_vozidlo\<lparr>dan := Some (Fin (1199 / 8))\<rparr>] =
     Subor ''dmv_2020123456_2024.xml''
       (Some (xml_hlavicka priklad_spolocnost ''2024'' @
          ''<telo>'' @ nl @
          ''<r35>2</r35>'' @ nl @
          ''<r36>202.57</r36>'' @ nl @
          ''<r38>202.57</r38>'' @ nl @
          ''<r40>202.57</r40>'' @ nl @
          ''</telo>'' @ nl @
          ''</dokument>''))"
  by (simp add: exportXML_def priklad_zaokruhlenie(1,2) xml_dokument_def xml_telo_def
      cislice.simps cifra_def priklad_spolocnost_def)

lemma priklad_export_138:
  "exportXML False priklad_spolocnost ''2024''
       [prepocitaj (Fin 2024) priklad_vozidlo, priklad_vozidlo] =
     Subor ''dmv_2020123456_2024.xml''
       (Some (xml_hlavicka priklad_spolocnost ''2024'' @
          ''<telo>'' @ nl @
          ''<r35>2</r35>'' @ nl @
          ''<r36>138.00</r36>'' @ nl @
          ''<r38>138.00</r38>'' @ nl @
          ''<r40>138.00</r40>'' @ nl @
          ''</telo>'' @ nl @
          ''</dokument>''))"
  by (simp add: exportXML_def priklad_celkovaDan
      toFixed2_138 xml_dokument_def xml_telo_def cislice.simps cifra_def
      priklad_spolocnost_def)

section \<open>Further properties\<close>

text \<open>
  The calendar at some known days: the epoch, 29 February 2000, the day after
  28 February 1900 (not a leap year), and the turn of the year 2024.
\<close>

lemma calendar_examples:
  "year_month_of_day 0 = (1970, 0)"
  "day_of_month_start 2000 1 + 28 = 11016"
  "year_month_of_day 11016 = (2000, 1)"
  "year_month_of_day (day_of_month_start 1900 1 + 28) = (1900, 2)"
  "year_month_of_day (day_of_month_start 2024 11 + 30) = (2024, 11)"
  "year_month_of_day (day_of_month_start 2024 11 + 31) = (2025, 0)"
  by code_simp+

lemma js_finite_mul: "js_finite a \<Longrightarrow> js_finite b \<Longrightarrow> js_finite (js_mul a b)"
  by (cases a; cases b) (simp_all add: js_finite_def)

text \<open>The adjusted rate of a recomputed vehicle is a finite number.\<close>

lemma prepocitaj_sadzba_finite: "\<exists>r. sadzba (prepocitaj rok v) = Some (Fin r)"
proof -
  have f: "js_finite (Fin (1 / 2))"
    by (simp add: js_finite_def)
  have "\<exists>s. sadzba (prepocitaj rok v) = Some s \<and> js_finite s"
    by (simp add: prepocitaj_def Let_def js_finite_mul getZakladnaSadzba_finite
        getKoefVeku_finite f)
  then show ?thesis
    by (auto dest: js_finiteE)
qed

text \<open>
  The tax is linear in the months held: for the same vehicle and year, the tax for 6
  months is half the tax for 12 months.
\<close>

theorem proration_linear:
  "dan (prepocitaj rok (v\<lparr>mesiace := Some (Fin 6)\<rparr>)) =
     map_option (\<lambda>d. js_div d (Fin 2)) (dan (prepocitaj rok (v\<lparr>mesiace := Some (Fin 12)\<rparr>)))"
proof -
  obtain r where r: "sadzba (prepocitaj rok v) = Some (Fin r)"
    using prepocitaj_sadzba_finite by blast
  have s: "sadzba (prepocitaj rok (v\<lparr>mesiace := m\<rparr>)) = sadzba (prepocitaj rok v)" for m
    by (simp add: prepocitaj_def Let_def)
  have d: "dan (prepocitaj rok (v\<lparr>mesiace := Some m\<rparr>)) = Some (js_mul (js_div (Fin r) (Fin 12)) m)"
    for m
    using r s [of "Some m"] by (simp add: prepocitaj_def Let_def)
  show ?thesis
    by (simp add: d)
qed

text \<open>
  The worked example: a passenger car of 1400 cubic centimetres that is more than 156
  months old and held for 12 months. For the tax year 2024 the base rate is 115, the
  coefficient 1.20 and the tax 138; with the hybrid flag the tax is 69; for the tax year
  2025 the coefficient is 1.50 and the tax 172.50.
\<close>

theorem priklad_end_to_end:
  "zakladnaSadzba (prepocitaj (Fin 2024) priklad_vozidlo) = Some (Fin 115) \<and>
   vek (prepocitaj (Fin 2024) priklad_vozidlo) = Some (Fin 237) \<and>
   getKoefVeku (Fin 2024) (Fin 237) = Fin 1.20 \<and>
   dan (prepocitaj (Fin 2024) priklad_vozidlo) = Some (Fin 138) \<and>
   dan (prepocitaj (Fin 2024) (priklad_vozidlo\<lparr>hybrid := True\<rparr>)) = Some (Fin 69) \<and>
   getKoefVeku (Fin 2025) (Fin 249) = Fin 1.50 \<and>
   dan (prepocitaj (Fin 2025) priklad_vozidlo) = Some (Fin 172.50)"
proof -
  have s: "split CHR ''.'' ''15.3.2005'' = [''15'', ''3'', ''2005'']" by simp
  have n: "StringToNumber ''15'' = Fin 15" "StringToNumber ''3'' = Fin 3"
    "StringToNumber ''2005'' = Fin 2005"
    by (simp_all add: text_eval)
  have d: "new_Date (Fin 2005) (Fin 2) (Fin 15) = Some 12857" by code_simp
  have ym: "year_month_of_day 12857 = (2005, 2)" by code_simp
  have k: "new_Date (Fin 2025) (Fin 11) (Fin 31) = Some 20453" by code_simp
  have ymk: "year_month_of_day 20453 = (2025, 11)" by code_simp
  have v25: "vypocitajVek (Fin 2025) (Some ''15.3.2005'') = Fin 249"
    by (simp add: vypocitajVek_parts [OF s] n d k getFullYear_def getMonth_def ym ymk js_sub_def)
  have k25: "getKoefVeku (Fin 2025) (Fin 249) = Fin 1.50"
    by (simp add: getKoefVeku_def UPRAVA_2025_def)
  show ?thesis
    by (simp add: prepocitaj_def priklad_vozidlo_def priklad_vek priklad_zakladna priklad_koef
        v25 k25 startsWith_def Let_def)
qed

end
